theory Spec2Isabelle
  imports Complex_Main "HOL-Library.Word" "HOL-Library.Signed_Division" "HOL-Library.Log_Nat"
begin

text \<open>
  The simulation engine and the player registry of the Idle Dungeon game server: the
  battle of a hero against the enemy of a dungeon level, the upgrade of a factory
  station, the update of a player's progress on every tick, and the creation of players.
  The functions are those of the packages \<open>game\<close> and \<open>models\<close> (\<open>simulateBattle\<close>,
  \<open>createHero\<close>, \<open>processPlayer\<close>, \<open>UpgradeStation\<close>, \<open>getStationByType\<close>) and of the
  single-file server (\<open>getOrCreatePlayer\<close>, with the struct literals of the data model).
\<close>

section \<open>Machine arithmetic of the Go source\<close>

subsection \<open>The type int: 64-bit two's complement\<close>

text \<open>
  Go's \<open>int\<close> is a 64-bit two's complement integer on the 64-bit platforms the server is
  built for; \<open>+\<close>, \<open>-\<close> and \<open>*\<close> wrap around silently. The comparisons of the source
  are the signed ones: \<open><s\<close> and \<open>\<le>s\<close>.
\<close>

type_synonym i64 = "64 word"

text \<open>
  Go's \<open>/\<close> on integers truncates towards zero. The source only ever divides by the
  literal 2 (\<open>enemyAttack/2\<close> and \<open>battleResult.GoldReward / 2\<close>), so neither the
  division-by-zero panic nor the overflow of \<open>MinInt64 / -1\<close> can occur.
\<close>

definition div_i64 :: "i64 \<Rightarrow> i64 \<Rightarrow> i64" where
  "div_i64 a b = word_of_int (sint a sdiv sint b)"

text \<open>The source's helper \<open>max\<close>: \<open>if a > b { return a }; return b\<close>.\<close>

definition max_i64 :: "i64 \<Rightarrow> i64 \<Rightarrow> i64" where
  "max_i64 a b = (if b <s a then a else b)"

subsection \<open>The type float64: binary64 with round-to-nearest-even\<close>

text \<open>
  A finite float64 is a dyadic number \<open>m * 2 ^ e\<close> with \<open>\<bar>m\<bar> < 2 ^ 53\<close>. The model keeps the
  pair \<open>(m, e)\<close>; the source never compares two floats, so the pair need not be
  canonical. Every arithmetic result is computed exactly and then rounded to 53
  significant bits, ties to even, as IEEE 754 prescribes and Go implements. The exponent
  is unbounded: overflow to infinity and subnormal numbers are not modelled. The values
  the program computes (multipliers, \<open>base * multiplier\<close>, \<open>cost * 1.5\<close>) have magnitudes
  between \<open>2 ^ -3\<close> and \<open>2 ^ 65\<close>, far inside the range of binary64.
\<close>

datatype f64 = F64 (mant: int) (expo: int)

text \<open>The rational number a float denotes.\<close>

definition pow2 :: "int \<Rightarrow> rat" where
  "pow2 e = (if 0 \<le> e then 2 ^ nat e else 1 / 2 ^ nat (- e))"

definition f64_val :: "f64 \<Rightarrow> rat" where
  "f64_val x = of_int (mant x) * pow2 (expo x)"

text \<open>\<open>rne M k\<close> is \<open>M / 2 ^ k\<close> rounded to the nearest integer, ties to the even one.\<close>

definition rne :: "int \<Rightarrow> nat \<Rightarrow> int" where
  "rne M k =
     (let q = M div 2 ^ k; r = M mod 2 ^ k in
      if 2 * r < 2 ^ k then q
      else if 2 ^ k < 2 * r then q + 1
      else if even q then q else q + 1)"

text \<open>Rounding of the exact result \<open>M * 2 ^ E\<close> to 53 significant bits.\<close>

definition f64_round :: "int \<Rightarrow> int \<Rightarrow> f64" where
  "f64_round M E =
     (if \<bar>M\<bar> < 2 ^ 53 then F64 M E
      else let k = nat (bitlen \<bar>M\<bar> - 53) in F64 (rne M k) (E + int k))"

definition f64_add :: "f64 \<Rightarrow> f64 \<Rightarrow> f64" where
  "f64_add x y =
     (let e = min (expo x) (expo y) in
      f64_round (mant x * 2 ^ nat (expo x - e) + mant y * 2 ^ nat (expo y - e)) e)"

definition f64_mul :: "f64 \<Rightarrow> f64 \<Rightarrow> f64" where
  "f64_mul x y = f64_round (mant x * mant y) (expo x + expo y)"

text \<open>The conversion \<open>float64(i)\<close> of an int.\<close>

definition f64_of_i64 :: "i64 \<Rightarrow> f64" where
  "f64_of_i64 i = f64_round (sint i) 0"

text \<open>
  The conversion \<open>int(x)\<close> of a float discards the fraction (truncation towards zero).
  When the truncated value does not fit into 64 bits the Go specification leaves the
  result to the implementation; the model returns what the amd64 instruction
  \<open>CVTTSD2SQ\<close> returns, the bit pattern \<open>0x8000000000000000\<close>. No theorem below about
  reachable values depends on this choice.
\<close>

definition f64_trunc :: "f64 \<Rightarrow> int" where
  "f64_trunc x =
     (if 0 \<le> expo x then mant x * 2 ^ nat (expo x)
      else sgn (mant x) * (\<bar>mant x\<bar> div 2 ^ nat (- expo x)))"

definition i64_of_f64 :: "f64 \<Rightarrow> i64" where
  "i64_of_f64 x =
     (let t = f64_trunc x in
      if - (2 ^ 63) \<le> t \<and> t < 2 ^ 63 then word_of_int t else - (2 ^ 63))"

text \<open>The float constants of the source: \<open>1.0\<close>, \<open>1.5\<close>, and the double nearest to \<open>0.2\<close>.\<close>

definition f64_1_0 :: f64 where
  "f64_1_0 = F64 1 0"

definition f64_1_5 :: f64 where
  "f64_1_5 = F64 3 (- 1)"

definition f64_0_2 :: f64 where
  "f64_0_2 = F64 3602879701896397 (- 54)"

section \<open>The data model\<close>

text \<open>
  The structs of the source. \<open>Player\<close>, \<open>Factory\<close> hold pointers in Go; every pointer is
  allocated fresh when the player is created and never copied into another field, so
  the records hold the values.  \<open>LastSeen\<close> is a reading of the clock, kept abstract.
\<close>

record Station =
  Level :: i64
  Multiplier :: f64
  Cost :: i64

record Factory =
  HPStation :: Station
  ArmorStation :: Station
  LootStation :: Station
  AttackStation :: Station

record Progress =
  DungeonLevel :: i64
  Gold :: i64
  Experience :: i64

record Hero =
  HP :: i64
  Armor :: i64
  Attack :: i64
  Loot :: i64

record Player =
  ID :: string
  Name :: string
  Factory :: Factory
  Progress :: Progress
  LastSeen :: nat

record BattleResult =
  Victory :: bool
  GoldReward :: i64
  ExpReward :: i64

text \<open>\<open>GameState.Players\<close>: the registry, a map from identifier to player.\<close>

type_synonym Players = "string \<rightharpoonup> Player"

section \<open>The player registry\<close>

text \<open>
  \<open>getOrCreatePlayer\<close>. The slice expression \<open>playerID[:8]\<close> in the struct literal panics
  (slice bounds out of range) when the identifier has fewer than 8 bytes; this happens
  before the new player is stored.
\<close>

datatype panic = SliceBoundsOutOfRange

definition defaultStation :: Station where
  "defaultStation = \<lparr>Level = 1, Multiplier = f64_1_0, Cost = 100\<rparr>"

definition defaultFactory :: Factory where
  "defaultFactory =
     \<lparr>HPStation = defaultStation, ArmorStation = defaultStation,
      LootStation = defaultStation, AttackStation = defaultStation\<rparr>"

definition defaultProgress :: Progress where
  "defaultProgress = \<lparr>DungeonLevel = 1, Gold = 0, Experience = 0\<rparr>"

definition getOrCreatePlayer :: "nat \<Rightarrow> string \<Rightarrow> Players \<Rightarrow> panic + (Player \<times> Players)" where
  "getOrCreatePlayer now playerID players =
     (case players playerID of
        Some player \<Rightarrow>
          (let player' = player\<lparr>LastSeen := now\<rparr>
           in Inr (player', players(playerID \<mapsto> player')))
      | None \<Rightarrow>
          if length playerID < 8 then Inl SliceBoundsOutOfRange
          else
            (let player = \<lparr>ID = playerID, Name = ''Player '' @ take 8 playerID,
                            Factory = defaultFactory, Progress = defaultProgress,
                            LastSeen = now\<rparr>
             in Inr (player, players(playerID \<mapsto> player))))"

section \<open>The simulation\<close>

subsection \<open>Station upgrades\<close>

text \<open>
  \<open>getStationByType\<close> returns one of the factory's four station pointers, or nil. The
  model names the pointer by the field it was read from; \<open>station_of\<close> reads through it
  and \<open>set_station\<close> writes through it.
\<close>

datatype StationRef = HPRef | ArmorRef | LootRef | AttackRef

definition getStationByType :: "string \<Rightarrow> StationRef option" where
  "getStationByType stationType =
     (if stationType = ''hp'' then Some HPRef
      else if stationType = ''armor'' then Some ArmorRef
      else if stationType = ''loot'' then Some LootRef
      else if stationType = ''attack'' then Some AttackRef
      else None)"

fun station_of :: "Factory \<Rightarrow> StationRef \<Rightarrow> Station" where
  "station_of f HPRef = HPStation f"
| "station_of f ArmorRef = ArmorStation f"
| "station_of f LootRef = LootStation f"
| "station_of f AttackRef = AttackStation f"

fun set_station :: "StationRef \<Rightarrow> Station \<Rightarrow> Factory \<Rightarrow> Factory" where
  "set_station HPRef s f = f\<lparr>HPStation := s\<rparr>"
| "set_station ArmorRef s f = f\<lparr>ArmorStation := s\<rparr>"
| "set_station LootRef s f = f\<lparr>LootStation := s\<rparr>"
| "set_station AttackRef s f = f\<lparr>AttackStation := s\<rparr>"

text \<open>The three assignments to the station in a successful upgrade.\<close>

definition upgraded :: "Station \<Rightarrow> Station" where
  "upgraded s =
     \<lparr>Level = Level s + 1,
      Multiplier = f64_add (Multiplier s) f64_0_2,
      Cost = i64_of_f64 (f64_mul (f64_of_i64 (Cost s)) f64_1_5)\<rparr>"

text \<open>\<open>UpgradeStation\<close>: the result and the player after the call.\<close>

definition UpgradeStation :: "Player \<Rightarrow> string \<Rightarrow> bool \<times> Player" where
  "UpgradeStation player stationType =
     (case getStationByType stationType of
        None \<Rightarrow> (False, player)
      | Some ref \<Rightarrow>
          (let station = station_of (Factory player) ref in
           if Gold (Progress player) <s Cost station then (False, player)
           else
             (True,
              player\<lparr>Progress := (Progress player)\<lparr>Gold := Gold (Progress player) - Cost station\<rparr>,
                     Factory := set_station ref (upgraded station) (Factory player)\<rparr>)))"

subsection \<open>Battles\<close>

text \<open>\<open>createHero\<close>: the base statistics 100, 10, 20 and 1 scaled by the multipliers.\<close>

definition createHero :: "Factory \<Rightarrow> Hero" where
  "createHero factory =
     \<lparr>HP = i64_of_f64 (f64_mul (f64_of_i64 100) (Multiplier (HPStation factory))),
      Armor = i64_of_f64 (f64_mul (f64_of_i64 10) (Multiplier (ArmorStation factory))),
      Attack = i64_of_f64 (f64_mul (f64_of_i64 20) (Multiplier (AttackStation factory))),
      Loot = i64_of_f64 (f64_mul (f64_of_i64 1) (Multiplier (LootStation factory)))\<rparr>"

text \<open>
  The loop of \<open>simulateBattle\<close>, \<open>for heroHP > 0 && enemyHP > 0 { ... }\<close>, returning both
  hit points at its exit. For arbitrary damages the loop need not end, so not returning
  is the value \<open>None\<close>.
\<close>

partial_function (option) battle_loop :: "i64 \<Rightarrow> i64 \<Rightarrow> i64 \<Rightarrow> i64 \<Rightarrow> (i64 \<times> i64) option" where
  "battle_loop heroDamage enemyDamage heroHP enemyHP =
     (if 0 <s heroHP \<and> 0 <s enemyHP then
        (if enemyHP - heroDamage \<le>s 0 then Some (heroHP, enemyHP - heroDamage)
         else battle_loop heroDamage enemyDamage (heroHP - enemyDamage) (enemyHP - heroDamage))
      else Some (heroHP, enemyHP))"

definition simulateBattle :: "Hero \<Rightarrow> i64 \<Rightarrow> BattleResult option" where
  "simulateBattle hero dungeonLevel =
     (let enemyHP = 50 + dungeonLevel * 10;
          enemyAttack = 15 + dungeonLevel * 5;
          heroDamage = max_i64 1 (Attack hero - div_i64 enemyAttack 2);
          enemyDamage = max_i64 1 (enemyAttack - Armor hero)
      in case battle_loop heroDamage enemyDamage (HP hero) enemyHP of
           None \<Rightarrow> None
         | Some (heroHP, enemyHP') \<Rightarrow>
             Some \<lparr>Victory = 0 <s heroHP,
                   GoldReward = (10 + dungeonLevel * 2) * Loot hero,
                   ExpReward = 5 + dungeonLevel\<rparr>)"

text \<open>\<open>processPlayer\<close>: one battle of one player and the update of the progress.\<close>

definition processPlayer :: "Player \<Rightarrow> Player option" where
  "processPlayer player =
     (case simulateBattle (createHero (Factory player)) (DungeonLevel (Progress player)) of
        None \<Rightarrow> None
      | Some battleResult \<Rightarrow>
          Some (if Victory battleResult then
                  player\<lparr>Progress := (Progress player)
                    \<lparr>DungeonLevel := DungeonLevel (Progress player) + 1,
                     Gold := Gold (Progress player) + GoldReward battleResult,
                     Experience := Experience (Progress player) + ExpReward battleResult\<rparr>\<rparr>
                else
                  player\<lparr>Progress := (Progress player)
                    \<lparr>Gold := Gold (Progress player) + div_i64 (GoldReward battleResult) 2\<rparr>\<rparr>))"

text \<open>A run of \<open>n\<close> ticks of the game loop for one player.\<close>

fun ticks :: "nat \<Rightarrow> Player \<Rightarrow> Player option" where
  "ticks 0 player = Some player"
| "ticks (Suc n) player =
     (case processPlayer player of None \<Rightarrow> None | Some player' \<Rightarrow> ticks n player')"

subsection \<open>Two goroutines in \<open>UpgradeStation\<close>\<close>

text \<open>
  \<open>UpgradeStation\<close> takes no lock, and every HTTP request and every WebSocket connection
  is served by a goroutine of its own. The statements of \<open>UpgradeStation\<close> are therefore
  modelled one by one: a goroutine is at the lookup of the station, at the check of the
  gold, at one of the four assignments, or has returned. Each step reads and writes the
  shared player as it is at that moment.
\<close>

datatype pc = Lookup | Check StationRef | Deduct StationRef | IncLevel StationRef
  | AddMultiplier StationRef | GrowCost StationRef | Returned bool

fun upgrade_step :: "string \<Rightarrow> pc \<Rightarrow> Player \<Rightarrow> pc \<times> Player" where
  "upgrade_step stationType Lookup player =
     (case getStationByType stationType of
        None \<Rightarrow> (Returned False, player)
      | Some ref \<Rightarrow> (Check ref, player))"
| "upgrade_step stationType (Check ref) player =
     (if Gold (Progress player) <s Cost (station_of (Factory player) ref)
      then (Returned False, player) else (Deduct ref, player))"
| "upgrade_step stationType (Deduct ref) player =
     (IncLevel ref,
      player\<lparr>Progress := (Progress player)
        \<lparr>Gold := Gold (Progress player) - Cost (station_of (Factory player) ref)\<rparr>\<rparr>)"
| "upgrade_step stationType (IncLevel ref) player =
     (let station = station_of (Factory player) ref in
      (AddMultiplier ref,
       player\<lparr>Factory := set_station ref (station\<lparr>Level := Level station + 1\<rparr>) (Factory player)\<rparr>))"
| "upgrade_step stationType (AddMultiplier ref) player =
     (let station = station_of (Factory player) ref in
      (GrowCost ref,
       player\<lparr>Factory := set_station ref
         (station\<lparr>Multiplier := f64_add (Multiplier station) f64_0_2\<rparr>) (Factory player)\<rparr>))"
| "upgrade_step stationType (GrowCost ref) player =
     (let station = station_of (Factory player) ref in
      (Returned True,
       player\<lparr>Factory := set_station ref
         (station\<lparr>Cost := i64_of_f64 (f64_mul (f64_of_i64 (Cost station)) f64_1_5)\<rparr>)
         (Factory player)\<rparr>))"
| "upgrade_step stationType (Returned ok) player = (Returned ok, player)"

text \<open>
  Two calls, of station types \<open>s1\<close> and \<open>s2\<close>, on the same player. The schedule says
  which goroutine takes the next step.
\<close>

datatype goroutine = G1 | G2

fun interleave ::
  "goroutine list \<Rightarrow> string \<Rightarrow> string \<Rightarrow> pc \<times> pc \<times> Player \<Rightarrow> pc \<times> pc \<times> Player" where
  "interleave [] s1 s2 cfg = cfg"
| "interleave (G1 # sched) s1 s2 (pc1, pc2, player) =
     (case upgrade_step s1 pc1 player of
        (pc1', player') \<Rightarrow> interleave sched s1 s2 (pc1', pc2, player'))"
| "interleave (G2 # sched) s1 s2 (pc1, pc2, player) =
     (case upgrade_step s2 pc2 player of
        (pc2', player') \<Rightarrow> interleave sched s1 s2 (pc1, pc2', player'))"

section \<open>Formulations for the claims\<close>

subsection \<open>The battle in the words of the specification\<close>

text \<open>
  The battle as the specification words it: alternating exchanges in which the hero
  strikes first; a strike that brings the enemy to 0 or below ends the battle at once;
  otherwise the enemy strikes back; this repeats until one side is at 0 or below. The
  relation holds between the hit points \<open>(heroHP, enemyHP)\<close> at the start and at the end.
\<close>

inductive exchanges :: "i64 \<Rightarrow> i64 \<Rightarrow> i64 \<times> i64 \<Rightarrow> i64 \<times> i64 \<Rightarrow> bool"
  for heroDamage enemyDamage :: i64
where
  over: "heroHP \<le>s 0 \<or> enemyHP \<le>s 0 \<Longrightarrow>
     exchanges heroDamage enemyDamage (heroHP, enemyHP) (heroHP, enemyHP)"
| kill: "0 <s heroHP \<Longrightarrow> 0 <s enemyHP \<Longrightarrow> enemyHP - heroDamage \<le>s 0 \<Longrightarrow>
     exchanges heroDamage enemyDamage (heroHP, enemyHP) (heroHP, enemyHP - heroDamage)"
| counter: "0 <s heroHP \<Longrightarrow> 0 <s enemyHP \<Longrightarrow> \<not> enemyHP - heroDamage \<le>s 0 \<Longrightarrow>
     exchanges heroDamage enemyDamage (heroHP - enemyDamage, enemyHP - heroDamage) fin \<Longrightarrow>
     exchanges heroDamage enemyDamage (heroHP, enemyHP) fin"

text \<open>
  The specification's \<open>max\<close> and its truncating integer division, stated on the integer
  values of the operands and not through the helpers of the source: \<open>max\<close> is the greater
  of the two values, and \<open>a / b\<close> is the exact quotient of the two values with its
  fractional part discarded, that is, rounded towards zero.
\<close>

definition truncate_rat :: "rat \<Rightarrow> int" where
  "truncate_rat q = (if 0 \<le> q then \<lfloor>q\<rfloor> else \<lceil>q\<rceil>)"

definition max_spec :: "i64 \<Rightarrow> i64 \<Rightarrow> i64" where
  "max_spec a b = word_of_int (max (sint a) (sint b))"

definition quot_spec :: "i64 \<Rightarrow> i64 \<Rightarrow> i64" where
  "quot_spec a b = word_of_int (truncate_rat (of_int (sint a) / of_int (sint b)))"

text \<open>
  The damages of the specification, fixed for the whole battle:
  \<open>heroDamage = max(1, hero.attack - enemyAttack/2)\<close> and
  \<open>enemyDamage = max(1, enemyAttack - hero.armor)\<close> with \<open>enemyAttack = 15 + 5 * dungeonLevel\<close>.
\<close>

definition heroDamage_spec :: "Hero \<Rightarrow> i64 \<Rightarrow> i64" where
  "heroDamage_spec hero dungeonLevel =
     max_spec 1 (Attack hero - quot_spec (15 + 5 * dungeonLevel) 2)"

definition enemyDamage_spec :: "Hero \<Rightarrow> i64 \<Rightarrow> i64" where
  "enemyDamage_spec hero dungeonLevel = max_spec 1 ((15 + 5 * dungeonLevel) - Armor hero)"

definition resolveBattle_spec :: "Hero \<Rightarrow> i64 \<Rightarrow> BattleResult \<Rightarrow> bool" where
  "resolveBattle_spec hero dungeonLevel outcome =
     (\<exists>heroHP enemyHP.
        exchanges (heroDamage_spec hero dungeonLevel) (enemyDamage_spec hero dungeonLevel)
          (HP hero, 50 + 10 * dungeonLevel) (heroHP, enemyHP)
        \<and> outcome = \<lparr>Victory = 0 <s heroHP,
                      GoldReward = (10 + 2 * dungeonLevel) * Loot hero,
                      ExpReward = 5 + dungeonLevel\<rparr>)"

subsection \<open>Runs of upgrades\<close>

text \<open>
  The cost sequence of a station that is upgraded again and again: each cost is one and
  a half times the previous one, truncated.
\<close>

fun cost_seq :: "nat \<Rightarrow> int" where
  "cost_seq 0 = 100"
| "cost_seq (Suc n) = 3 * cost_seq n div 2"

text \<open>\<open>n\<close> calls of \<open>UpgradeStation\<close> in a row; the flag says whether all of them succeeded.\<close>

fun upgradeTimes :: "nat \<Rightarrow> Player \<Rightarrow> string \<Rightarrow> bool \<times> Player" where
  "upgradeTimes 0 player stationType = (True, player)"
| "upgradeTimes (Suc n) player stationType =
     (case UpgradeStation player stationType of
        (ok, player') \<Rightarrow>
          (case upgradeTimes n player' stationType of
             (oks, player'') \<Rightarrow> (ok \<and> oks, player'')))"

text \<open>A float is near a rational when they differ by at most \<open>10 ^ -13\<close>.\<close>

definition near :: "f64 \<Rightarrow> rat \<Rightarrow> bool" where
  "near x r = (\<bar>f64_val x - r\<bar> \<le> 1 / 10 ^ 13)"

text \<open>
  \<open>near_from k i m\<close>: the \<open>k\<close> multipliers \<open>m\<close>, \<open>m + 0.2\<close>, \<open>m + 0.2 + 0.2\<close>, ... are near
  \<open>1 + i / 5\<close>, \<open>1 + (i + 1) / 5\<close>, ...
\<close>

fun near_from :: "nat \<Rightarrow> nat \<Rightarrow> f64 \<Rightarrow> bool" where
  "near_from 0 i m = True"
| "near_from (Suc k) i m =
     (near m (1 + of_nat i / 5) \<and> near_from k (Suc i) (f64_add m f64_0_2))"

subsection \<open>The invariant and the reachable states\<close>

text \<open>
  The invariant of a player: the gold is not negative, the dungeon level is positive,
  and every station has a non-negative cost and a non-negative multiplier.
\<close>

definition station_ok :: "Station \<Rightarrow> bool" where
  "station_ok s = (0 \<le>s Cost s \<and> 0 \<le> mant (Multiplier s))"

definition player_ok :: "Player \<Rightarrow> bool" where
  "player_ok p =
     (0 \<le>s Gold (Progress p) \<and> 1 \<le>s DungeonLevel (Progress p)
      \<and> station_ok (HPStation (Factory p)) \<and> station_ok (ArmorStation (Factory p))
      \<and> station_ok (LootStation (Factory p)) \<and> station_ok (AttackStation (Factory p)))"

text \<open>
  The bounds under which no operation on the player overflows: for every station
  \<open>float64(cost) * 1.5\<close> is below \<open>2 ^ 63\<close>, and so are the loot of the hero as a
  float, the gold plus the reward of a battle, and the dungeon level plus 1.
\<close>

definition in_bounds :: "Player \<Rightarrow> bool" where
  "in_bounds p =
     ((\<forall>ref. f64_trunc (f64_mul (f64_of_i64 (Cost (station_of (Factory p) ref))) f64_1_5) < 2 ^ 63)
      \<and> f64_trunc (f64_mul (f64_of_i64 1) (Multiplier (LootStation (Factory p)))) < 2 ^ 63
      \<and> sint (Gold (Progress p))
          + (10 + 2 * sint (DungeonLevel (Progress p))) * sint (Loot (createHero (Factory p))) < 2 ^ 63
      \<and> sint (DungeonLevel (Progress p)) + 1 < 2 ^ 63)"

text \<open>
  The states of a player that the server reaches, one operation after the other, through
  states within the bounds: the player is created by \<open>getOrCreatePlayer\<close>, seen again by
  it, upgraded by \<open>UpgradeStation\<close> with any station type, and sent into battle by
  \<open>processPlayer\<close>.
\<close>

inductive reachable :: "Player \<Rightarrow> bool" where
  created: "players playerID = None \<Longrightarrow>
     getOrCreatePlayer now playerID players = Inr (p, players') \<Longrightarrow> reachable p"
| seen: "reachable p \<Longrightarrow> reachable (p\<lparr>LastSeen := now\<rparr>)"
| upgrade: "reachable p \<Longrightarrow> in_bounds p \<Longrightarrow> reachable (snd (UpgradeStation p stationType))"
| tick: "reachable p \<Longrightarrow> in_bounds p \<Longrightarrow> processPlayer p = Some p' \<Longrightarrow> reachable p'"

subsection \<open>An example player\<close>

text \<open>
  The player that the registry creates for the identifier \<open>player_1\<close> at time 0, with the
  given progress in place of the default one.
\<close>

definition examplePlayer :: "Progress \<Rightarrow> Player" where
  "examplePlayer progress =
     \<lparr>ID = ''player_1'', Name = ''Player player_1'', Factory = defaultFactory,
      Progress = progress, LastSeen = 0\<rparr>"

section \<open>Facts about the machine arithmetic\<close>

subsection \<open>Signed 64-bit integers\<close>

lemma sint_of_int_i64:
  "- (2 ^ 63) \<le> x \<Longrightarrow> x < 2 ^ 63 \<Longrightarrow> sint (word_of_int x :: i64) = x"
  by (simp add: sint_sbintrunc' signed_take_bit_int_eq_self)

lemma sint_add_no_wrap:
  fixes a b :: i64
  assumes "- (2 ^ 63) \<le> sint a + sint b" "sint a + sint b < 2 ^ 63"
  shows "sint (a + b) = sint a + sint b"
  using assms by (simp add: sint_word_ariths signed_take_bit_int_eq_self)

lemma sint_sub_no_wrap:
  fixes e d :: i64
  assumes "0 <s e" "1 \<le>s d"
  shows "sint (e - d) = sint e - sint d"
proof -
  have e: "0 < sint e" and d: "1 \<le> sint d"
    using assms by (simp_all add: word_sless_alt word_sle_eq)
  have "sint e < 2 ^ 63" "sint d < 2 ^ 63"
    using sint_lt [of e] sint_lt [of d] by simp_all
  with e d show ?thesis
    by (simp add: sint_word_ariths signed_take_bit_int_eq_self)
qed

lemma sint_div_i64_2: "sint (div_i64 a 2) = sgn (sint a) * (\<bar>sint a\<bar> div 2)"
proof -
  have lo: "- (2 ^ 63) \<le> sint a" and hi: "sint a < 2 ^ 63"
    using sint_ge [of a] sint_lt [of a] by simp_all
  have eq: "sint a sdiv sint (2 :: i64) = sgn (sint a) * (\<bar>sint a\<bar> div 2)"
    by (simp add: signed_divide_int_def)
  have "- (2 ^ 63) \<le> sgn (sint a) * (\<bar>sint a\<bar> div 2)" "sgn (sint a) * (\<bar>sint a\<bar> div 2) < 2 ^ 63"
    using lo hi by (auto simp: sgn_if)
  then show ?thesis
    unfolding div_i64_def eq by (rule sint_of_int_i64)
qed

lemma max_i64_ge1: "1 \<le>s max_i64 1 x"
  by (simp add: max_i64_def word_sless_alt word_sle_eq)

subsection \<open>Floats\<close>

lemma f64_round_small: "\<bar>M\<bar> < 2 ^ 53 \<Longrightarrow> f64_round M E = F64 M E"
  by (simp add: f64_round_def)

text \<open>Rounding moves the exact result by at most half a unit in the last place.\<close>

lemma rne_error:
  "\<bar>rne M k * 2 ^ k - M\<bar> * 2 \<le> 2 ^ k"
proof -
  have r: "0 \<le> M mod 2 ^ k" "M mod 2 ^ k < 2 ^ k" by simp_all
  show ?thesis
  proof (cases "2 * (M mod 2 ^ k) < 2 ^ k")
    case True
    then have "rne M k = M div 2 ^ k" by (simp add: rne_def Let_def)
    then have "rne M k * 2 ^ k - M = - (M mod 2 ^ k)"
      by (simp add: algebra_simps minus_mod_eq_mult_div [symmetric])
    with True r show ?thesis by simp
  next
    case False
    show ?thesis
    proof (cases "even (M div 2 ^ k) \<and> 2 * (M mod 2 ^ k) = 2 ^ k")
      case True
      then have "rne M k = M div 2 ^ k" by (simp add: rne_def Let_def)
      then have "rne M k * 2 ^ k - M = - (M mod 2 ^ k)"
        by (simp add: algebra_simps minus_mod_eq_mult_div [symmetric])
      with True r show ?thesis by simp
    next
      case F2: False
      with False have "rne M k = M div 2 ^ k + 1" by (auto simp: rne_def Let_def)
      then have h: "rne M k * 2 ^ k - M = 2 ^ k - M mod 2 ^ k"
        by (simp add: algebra_simps minus_mod_eq_mult_div [symmetric])
      have "M mod 2 ^ k \<le> 2 ^ k" by (rule less_imp_le) simp
      then have "0 \<le> 2 ^ k - M mod 2 ^ k" by simp
      then have "\<bar>2 ^ k - M mod 2 ^ k\<bar> = 2 ^ k - M mod 2 ^ k" by (rule abs_of_nonneg)
      then show ?thesis unfolding h using False by simp
    qed
  qed
qed

text \<open>The constant \<open>0.2\<close> of the source is the double nearest to one fifth.\<close>

lemma f64_0_2_is_nearest:
  "\<bar>mant f64_0_2\<bar> < 2 ^ 53 \<and> \<bar>f64_val f64_0_2 - 1 / 5\<bar> < 1 / 2 ^ 56"
  by (simp add: f64_0_2_def f64_val_def pow2_def)

text \<open>Evaluation of the float operations on literals.\<close>

lemma bitlen_Bit0: "bitlen (numeral (Num.Bit0 n)) = bitlen (numeral n) + 1"
  by (subst compute_bitlen) simp

lemma bitlen_Bit1: "bitlen (numeral (Num.Bit1 n)) = bitlen (numeral n) + 1"
  by (subst compute_bitlen) simp

lemma bitlen_One: "bitlen 1 = 1"
  by (subst compute_bitlen) simp

lemma bitlen_neg: "bitlen (- numeral n) = 0"
  by (subst compute_bitlen) simp

lemmas f64_eval = f64_1_0_def f64_0_2_def f64_1_5_def f64_add_def f64_mul_def f64_of_i64_def
  f64_round_def i64_of_f64_def f64_trunc_def rne_def bitlen_Bit0 bitlen_Bit1 bitlen_One
  bitlen_neg Let_def

lemma floor_divide_numeral_rat: "\<lfloor>numeral a / numeral b :: rat\<rfloor> = numeral a div numeral b"
  using floor_divide_of_int_eq [of "numeral a" "numeral b", where ?'a = rat] by simp

lemma mult_step_1: "f64_add f64_1_0 f64_0_2 = F64 5404319552844595 (- 52)"
  by (simp add: f64_eval)

lemma mult_step_2: "f64_add (F64 5404319552844595 (- 52)) f64_0_2 = F64 6305039478318694 (- 52)"
  by (simp add: f64_eval)

lemma mult_step_3: "f64_add (F64 6305039478318694 (- 52)) f64_0_2 = F64 7205759403792793 (- 52)"
  by (simp add: f64_eval)

lemma mult_step_4: "f64_add (F64 7205759403792793 (- 52)) f64_0_2 = F64 8106479329266892 (- 52)"
  by (simp add: f64_eval)

lemma cost_step_1: "i64_of_f64 (f64_mul (f64_of_i64 100) f64_1_5) = 150"
  by (simp add: f64_eval)

lemma cost_step_2: "i64_of_f64 (f64_mul (f64_of_i64 150) f64_1_5) = 225"
  by (simp add: f64_eval)

lemma cost_step_3: "i64_of_f64 (f64_mul (f64_of_i64 225) f64_1_5) = 337"
  by (simp add: f64_eval)

lemma cost_step_4: "i64_of_f64 (f64_mul (f64_of_i64 337) f64_1_5) = 505"
  by (simp add: f64_eval)

text \<open>
  While three times the cost stays below \<open>2 ^ 53\<close> the product \<open>float64(cost) * 1.5\<close> is
  exact, and the new cost is the old one times three, halved and truncated.
\<close>

lemma grow_cost_exact:
  fixes c :: i64
  assumes "0 \<le> sint c" "3 * sint c < 2 ^ 53"
  shows "sint (i64_of_f64 (f64_mul (f64_of_i64 c) f64_1_5)) = 3 * sint c div 2"
proof -
  let ?m = "sint c"
  have small: "\<bar>?m\<bar> < 2 ^ 53" "\<bar>?m * 3\<bar> < 2 ^ 53"
    using assms by simp_all
  have "f64_mul (f64_of_i64 c) f64_1_5 = F64 (?m * 3) (- 1)"
    using small by (simp add: f64_mul_def f64_of_i64_def f64_1_5_def f64_round_small)
  then have t: "f64_trunc (f64_mul (f64_of_i64 c) f64_1_5) = 3 * ?m div 2"
    using assms(1) by (simp add: f64_trunc_def mult.commute sgn_if)
  have "0 \<le> 3 * ?m div 2" "3 * ?m div 2 < 2 ^ 63"
    using assms by simp_all
  then show ?thesis
    unfolding i64_of_f64_def t Let_def
    by (simp add: signed_take_bit_int_eq_self sint_sbintrunc')
qed

section \<open>Facts about battles\<close>

lemma battle_loop_returns:
  assumes "1 \<le>s heroDamage"
  shows "\<exists>fin. battle_loop heroDamage enemyDamage heroHP enemyHP = Some fin"
proof (induction "nat (sint enemyHP)" arbitrary: heroHP enemyHP rule: less_induct)
  case less
  show ?case
  proof (cases "0 <s heroHP \<and> 0 <s enemyHP \<and> \<not> enemyHP - heroDamage \<le>s 0")
    case True
    then have pos: "0 <s enemyHP" by simp
    have "sint (enemyHP - heroDamage) = sint enemyHP - sint heroDamage"
      using pos assms by (rule sint_sub_no_wrap)
    moreover have "1 \<le> sint heroDamage" "0 < sint enemyHP"
      using assms pos by (simp_all add: word_sless_alt word_sle_eq)
    ultimately have "nat (sint (enemyHP - heroDamage)) < nat (sint enemyHP)"
      by simp
    from less [OF this, of "heroHP - enemyDamage"] True show ?thesis
      by (subst battle_loop.simps) simp
  next
    case False
    then show ?thesis
      by (subst battle_loop.simps) auto
  qed
qed

lemma exchanges_imp_loop:
  "exchanges hdmg edmg s fin \<Longrightarrow> battle_loop hdmg edmg (fst s) (snd s) = Some fin"
proof (induction rule: exchanges.induct)
  case (over heroHP enemyHP)
  then have "\<not> (0 <s heroHP \<and> 0 <s enemyHP)"
    by (auto simp: word_sless_alt word_sle_eq)
  then show ?case by (subst battle_loop.simps) auto
next
  case (kill heroHP enemyHP)
  then show ?case by (subst battle_loop.simps) simp
next
  case (counter heroHP enemyHP fin)
  then show ?case by (subst battle_loop.simps) simp
qed

lemma loop_imp_exchanges:
  assumes "battle_loop hdmg edmg h e = Some fin"
  shows "exchanges hdmg edmg (h, e) fin"
proof (rule battle_loop.raw_induct [where P = "\<lambda>hdmg edmg h e fin. exchanges hdmg edmg (h, e) fin", OF _ assms])
  fix loop :: "i64 \<Rightarrow> i64 \<Rightarrow> i64 \<Rightarrow> i64 \<Rightarrow> (i64 \<times> i64) option"
  fix hdmg edmg h e fin
  assume IH: "\<And>hdmg edmg h e fin. loop hdmg edmg h e = Some fin \<Longrightarrow> exchanges hdmg edmg (h, e) fin"
  assume body: "(if 0 <s h \<and> 0 <s e
        then if e - hdmg \<le>s 0 then Some (h, e - hdmg)
             else loop hdmg edmg (h - edmg) (e - hdmg)
        else Some (h, e)) = Some fin"
  show "exchanges hdmg edmg (h, e) fin"
  proof (cases "0 <s h \<and> 0 <s e")
    case False
    with body have "fin = (h, e)" by auto
    moreover from False have "h \<le>s 0 \<or> e \<le>s 0"
      by (auto simp: word_sless_alt word_sle_eq)
    ultimately show ?thesis by (simp add: exchanges.over)
  next
    case alive: True
    show ?thesis
    proof (cases "e - hdmg \<le>s 0")
      case True
      with alive body have "fin = (h, e - hdmg)" by auto
      with True alive show ?thesis by (simp add: exchanges.kill)
    next
      case False
      with alive body have "loop hdmg edmg (h - edmg) (e - hdmg) = Some fin" by simp
      then have "exchanges hdmg edmg (h - edmg, e - hdmg) fin" by (rule IH)
      with False alive show ?thesis by (simp add: exchanges.counter)
    qed
  qed
qed

lemma loop_iff_exchanges:
  "(battle_loop hdmg edmg h e = Some fin) = exchanges hdmg edmg (h, e) fin"
  using exchanges_imp_loop [of hdmg edmg "(h, e)" fin] loop_imp_exchanges [of hdmg edmg h e fin]
  by auto

text \<open>
  The helpers of the source compute what the specification states: \<open>max\<close> returns the
  greater value, and the division by 2 discards the fractional part of the quotient.
\<close>

lemma max_i64_eq_spec: "max_i64 a b = max_spec a b"
  by (simp add: max_i64_def max_spec_def word_sless_alt max_def)

lemma truncate_rat_half: "truncate_rat (of_int k / 2) = k sdiv 2"
proof (cases "0 \<le> k")
  case True
  then have "truncate_rat (of_int k / 2) = \<lfloor>(of_int k :: rat) / of_int 2\<rfloor>"
    by (simp add: truncate_rat_def)
  also have "\<dots> = k div 2"
    by (simp only: floor_divide_of_int_eq)
  finally show ?thesis
    using True by (simp add: signed_divide_int_def sgn_if)
next
  case False
  then have "truncate_rat (of_int k / 2) = - \<lfloor>(of_int (- k) :: rat) / of_int 2\<rfloor>"
    by (simp add: truncate_rat_def ceiling_def)
  also have "\<dots> = - ((- k) div 2)"
    by (simp only: floor_divide_of_int_eq)
  finally show ?thesis
    using False by (simp add: signed_divide_int_def sgn_if)
qed

lemma div_i64_2_eq_spec: "div_i64 a 2 = quot_spec a 2"
proof -
  have "truncate_rat (of_int (sint a) / of_int (sint (2 :: i64))) = sint a sdiv sint (2 :: i64)"
    using truncate_rat_half [of "sint a"] by simp
  then show ?thesis
    by (simp only: div_i64_def quot_spec_def)
qed

lemma simulateBattle_iff_spec:
  "(simulateBattle hero dungeonLevel = Some outcome) = resolveBattle_spec hero dungeonLevel outcome"
proof -
  let ?hd = "max_i64 1 (Attack hero - div_i64 (15 + dungeonLevel * 5) 2)"
  let ?ed = "max_i64 1 (15 + dungeonLevel * 5 - Armor hero)"
  let ?r = "\<lambda>heroHP. \<lparr>Victory = 0 <s heroHP, GoldReward = (10 + dungeonLevel * 2) * Loot hero,
                      ExpReward = 5 + dungeonLevel\<rparr>"
  have "(simulateBattle hero dungeonLevel = Some outcome) =
      (\<exists>heroHP enemyHP. battle_loop ?hd ?ed (HP hero) (50 + dungeonLevel * 10) = Some (heroHP, enemyHP)
         \<and> outcome = ?r heroHP)"
    by (auto simp: simulateBattle_def Let_def split: option.splits)
  moreover have "?hd = heroDamage_spec hero dungeonLevel"
    by (simp add: heroDamage_spec_def max_i64_eq_spec div_i64_2_eq_spec mult.commute)
  moreover have "?ed = enemyDamage_spec hero dungeonLevel"
    by (simp add: enemyDamage_spec_def max_i64_eq_spec mult.commute)
  ultimately show ?thesis
    by (simp add: resolveBattle_spec_def loop_iff_exchanges mult.commute)
qed

lemma simulateBattle_rewards:
  "\<exists>victory. simulateBattle hero dungeonLevel =
      Some \<lparr>Victory = victory, GoldReward = (10 + 2 * dungeonLevel) * Loot hero,
            ExpReward = 5 + dungeonLevel\<rparr>"
proof -
  obtain fin where "battle_loop (max_i64 1 (Attack hero - div_i64 (15 + dungeonLevel * 5) 2))
      (max_i64 1 (15 + dungeonLevel * 5 - Armor hero)) (HP hero) (50 + dungeonLevel * 10) = Some fin"
    using battle_loop_returns [OF max_i64_ge1] by blast
  then show ?thesis
    by (cases fin) (simp add: simulateBattle_def mult.commute)
qed

lemma createHero_default:
  "createHero defaultFactory = \<lparr>HP = 100, Armor = 10, Attack = 20, Loot = 1\<rparr>"
  by (simp add: createHero_def defaultFactory_def defaultStation_def f64_eval)

lemmas battle_eval = simulateBattle_def battle_loop.simps max_i64_def div_i64_def
  word_sless_alt word_sle_eq signed_divide_int_def

lemma simulateBattle_default_1:
  "simulateBattle \<lparr>HP = 100, Armor = 10, Attack = 20, Loot = 1\<rparr> 1 =
     Some \<lparr>Victory = True, GoldReward = 12, ExpReward = 6\<rparr>"
  by (simp add: battle_eval)

lemma simulateBattle_default_2:
  "simulateBattle \<lparr>HP = 100, Armor = 10, Attack = 20, Loot = 1\<rparr> 2 =
     Some \<lparr>Victory = False, GoldReward = 14, ExpReward = 7\<rparr>"
  by (simp add: battle_eval)

text \<open>
  Two battles in which the damages decide the outcome. A hero with 1 hit point and
  attack 70 wins at level 1 only because the first strike deals \<open>70 - 20/2 = 60\<close>. At
  dungeon level \<open>-4\<close> the enemy attack is \<open>-5\<close>, halved to \<open>-2\<close> (towards zero, not down
  to \<open>-3\<close>): a hero with attack 7 deals 9, one short of the enemy's 10 hit points, and
  the enemy deals \<open>max(1, -15) = 1\<close>. Each is evaluated twice, on the source's function and
  on the specification's relation.
\<close>

lemma simulateBattle_strong_hero:
  "simulateBattle \<lparr>HP = 1, Armor = 0, Attack = 70, Loot = 2\<rparr> 1 =
     Some \<lparr>Victory = True, GoldReward = 24, ExpReward = 6\<rparr>"
  by (simp add: battle_eval)

lemma simulateBattle_negative_level:
  "simulateBattle \<lparr>HP = 1, Armor = 10, Attack = 7, Loot = 1\<rparr> (- 4) =
     Some \<lparr>Victory = False, GoldReward = 2, ExpReward = 1\<rparr>"
  by (simp add: battle_eval)

lemma truncate_rat_minus: "truncate_rat (- q) = - truncate_rat q"
  by (cases "q = 0") (auto simp: truncate_rat_def ceiling_minus floor_minus)

lemma truncate_rat_numeral:
  "truncate_rat (numeral a / numeral b) = numeral a div numeral b"
  "truncate_rat (numeral a) = numeral a"
  by (simp_all add: truncate_rat_def floor_divide_numeral_rat)

lemmas spec_eval = heroDamage_spec_def enemyDamage_spec_def max_spec_def quot_spec_def
  truncate_rat_minus truncate_rat_numeral

lemma damages_spec_default_1:
  "heroDamage_spec \<lparr>HP = 100, Armor = 10, Attack = 20, Loot = 1\<rparr> 1 = 10"
  "enemyDamage_spec \<lparr>HP = 100, Armor = 10, Attack = 20, Loot = 1\<rparr> 1 = 10"
  by (simp_all add: spec_eval)

lemma damages_spec_strong_hero:
  "heroDamage_spec \<lparr>HP = 1, Armor = 0, Attack = 70, Loot = 2\<rparr> 1 = 60"
  "enemyDamage_spec \<lparr>HP = 1, Armor = 0, Attack = 70, Loot = 2\<rparr> 1 = 20"
  by (simp_all add: spec_eval)

lemma damages_spec_negative_level:
  "heroDamage_spec \<lparr>HP = 1, Armor = 10, Attack = 7, Loot = 1\<rparr> (- 4) = 9"
  "enemyDamage_spec \<lparr>HP = 1, Armor = 10, Attack = 7, Loot = 1\<rparr> (- 4) = 1"
  by (simp_all add: spec_eval)

lemma resolveBattle_spec_strong_hero:
  "resolveBattle_spec \<lparr>HP = 1, Armor = 0, Attack = 70, Loot = 2\<rparr> 1
     \<lparr>Victory = True, GoldReward = 24, ExpReward = 6\<rparr>"
proof -
  have "exchanges 60 20 (1, 60) (1, 60 - 60)"
    by (rule exchanges.kill) (simp_all add: word_sless_alt word_sle_eq)
  then show ?thesis
    unfolding resolveBattle_spec_def damages_spec_strong_hero
    by (intro exI [of _ 1] exI [of _ 0]) (simp add: word_sless_alt)
qed

lemma resolveBattle_spec_negative_level:
  "resolveBattle_spec \<lparr>HP = 1, Armor = 10, Attack = 7, Loot = 1\<rparr> (- 4)
     \<lparr>Victory = False, GoldReward = 2, ExpReward = 1\<rparr>"
proof -
  have "exchanges 9 1 (1 - 1, 10 - 9) (1 - 1, 10 - 9)"
    by (rule exchanges.over) (simp add: word_sle_eq)
  then have "exchanges 9 1 (1, 10) (1 - 1, 10 - 9)"
    by (rule exchanges.counter [rotated 3]) (simp_all add: word_sless_alt word_sle_eq)
  then show ?thesis
    unfolding resolveBattle_spec_def damages_spec_negative_level
    by (intro exI [of _ 0] exI [of _ 1]) (simp add: word_sless_alt)
qed

section \<open>Facts about upgrades\<close>

lemma getStationByType_Some:
  "(getStationByType k = Some r) =
     (k = ''hp'' \<and> r = HPRef \<or> k = ''armor'' \<and> r = ArmorRef
      \<or> k = ''loot'' \<and> r = LootRef \<or> k = ''attack'' \<and> r = AttackRef)"
  by (auto simp: getStationByType_def)

lemma getStationByType_None:
  "(getStationByType k = None) = (k \<notin> {''hp'', ''armor'', ''attack'', ''loot''})"
  by (auto simp: getStationByType_def)

lemma set_station_same: "station_of (set_station r s f) r = s"
  by (cases r) simp_all

lemma set_station_other: "r' \<noteq> r \<Longrightarrow> station_of (set_station r s f) r' = station_of f r'"
  by (cases r; cases r') simp_all

lemma set_station_twice: "set_station r s (set_station r s' f) = set_station r s f"
  by (cases r) simp_all

lemma Station_update_all:
  "s\<lparr>Level := a, Multiplier := b, Cost := c\<rparr> = \<lparr>Level = a, Multiplier = b, Cost = c\<rparr>"
  by (cases s) simp

lemma UpgradeStation_fails:
  assumes "getStationByType k = Some r" "Gold (Progress p) <s Cost (station_of (Factory p) r)"
  shows "UpgradeStation p k = (False, p)"
  using assms by (simp add: UpgradeStation_def)

lemma UpgradeStation_succeeds:
  assumes "getStationByType k = Some r" "\<not> Gold (Progress p) <s Cost (station_of (Factory p) r)"
  shows "UpgradeStation p k =
    (True, p\<lparr>Progress := (Progress p)\<lparr>Gold := Gold (Progress p) - Cost (station_of (Factory p) r)\<rparr>,
             Factory := set_station r (upgraded (station_of (Factory p) r)) (Factory p)\<rparr>)"
  using assms by (simp add: UpgradeStation_def Let_def)

lemma UpgradeStation_True:
  assumes "UpgradeStation p k = (True, p')"
  obtains r where "getStationByType k = Some r"
    and "\<not> Gold (Progress p) <s Cost (station_of (Factory p) r)"
    and "p' = p\<lparr>Progress := (Progress p)\<lparr>Gold := Gold (Progress p) - Cost (station_of (Factory p) r)\<rparr>,
             Factory := set_station r (upgraded (station_of (Factory p) r)) (Factory p)\<rparr>"
  using assms by (auto simp: UpgradeStation_def Let_def split: option.splits if_splits)

lemma UpgradeStation_success:
  assumes "UpgradeStation p k = (True, p')" "getStationByType k = Some r"
  shows "station_of (Factory p') r = upgraded (station_of (Factory p) r)"
  using assms by (cases r) (auto simp: UpgradeStation_def Let_def split: if_splits)

lemma upgradeTimes_success:
  assumes "upgradeTimes n p k = (True, p')" "getStationByType k = Some r"
  shows "station_of (Factory p') r = (upgraded ^^ n) (station_of (Factory p) r)"
  using assms
proof (induction n arbitrary: p)
  case 0
  then show ?case by simp
next
  case (Suc n)
  obtain ok p1 where u: "UpgradeStation p k = (ok, p1)" by (cases "UpgradeStation p k")
  obtain oks p2 where t: "upgradeTimes n p1 k = (oks, p2)" by (cases "upgradeTimes n p1 k")
  from Suc.prems(1) u t have "ok" "oks" "p2 = p'" by simp_all
  with u t Suc.prems(2) Suc.IH [of p1]
  have "station_of (Factory p') r = (upgraded ^^ n) (station_of (Factory p1) r)"
    and "station_of (Factory p1) r = upgraded (station_of (Factory p) r)"
    by (simp_all add: UpgradeStation_success)
  then show ?case by (simp add: funpow_swap1)
qed

lemma upgraded_default:
  "upgraded defaultStation = \<lparr>Level = 2, Multiplier = F64 5404319552844595 (- 52), Cost = 150\<rparr>"
  by (simp add: upgraded_def defaultStation_def f64_eval)

lemma Cost_upgraded: "Cost (upgraded s) = i64_of_f64 (f64_mul (f64_of_i64 (Cost s)) f64_1_5)"
  by (simp add: upgraded_def)

lemma upgraded_funpow_Level: "Level ((upgraded ^^ n) s) = Level s + of_nat n"
  by (induction n) (simp_all add: upgraded_def)

lemma upgraded_funpow_Multiplier:
  "Multiplier ((upgraded ^^ n) s) = ((\<lambda>x. f64_add x f64_0_2) ^^ n) (Multiplier s)"
  by (induction n) (simp_all add: upgraded_def)

subsection \<open>The cost sequence\<close>

lemma cost_seq_nonneg: "0 \<le> cost_seq n"
  by (induction n) simp_all

lemma cost_seq_mono_Suc: "cost_seq n \<le> cost_seq (Suc n)"
  using cost_seq_nonneg [of n] by simp

lemma cost_seq_mono: "m \<le> n \<Longrightarrow> cost_seq m \<le> cost_seq n"
  by (rule lift_Suc_mono_le [of cost_seq]) (rule cost_seq_mono_Suc)

lemma cost_seq_76: "cost_seq 76 = 2404952901370995"
  by (simp add: eval_nat_numeral)

lemma cost_seq_small: "n \<le> 76 \<Longrightarrow> 3 * cost_seq n < 2 ^ 53"
  using cost_seq_mono [of n 76] by (simp add: cost_seq_76)

lemma upgraded_funpow_Cost:
  "n \<le> 77 \<Longrightarrow> sint (Cost ((upgraded ^^ n) defaultStation)) = cost_seq n"
proof (induction n)
  case 0
  show ?case by (simp add: defaultStation_def)
next
  case (Suc n)
  then have IH: "sint (Cost ((upgraded ^^ n) defaultStation)) = cost_seq n" and n: "n \<le> 76"
    by simp_all
  have "sint (Cost (upgraded ((upgraded ^^ n) defaultStation))) =
      3 * sint (Cost ((upgraded ^^ n) defaultStation)) div 2"
    unfolding Cost_upgraded
  proof (rule grow_cost_exact)
    show "0 \<le> sint (Cost ((upgraded ^^ n) defaultStation))"
      unfolding IH by (rule cost_seq_nonneg)
    show "3 * sint (Cost ((upgraded ^^ n) defaultStation)) < 2 ^ 53"
      unfolding IH using n by (rule cost_seq_small)
  qed
  then show ?case by (simp add: IH)
qed

lemma cost_seq_closed_form: "n \<le> 3 \<Longrightarrow> cost_seq n = \<lfloor>100 * (3 / 2 :: rat) ^ n\<rfloor>"
proof -
  assume "n \<le> 3"
  then consider "n = 0" | "n = 1" | "n = 2" | "n = 3" by linarith
  then show ?thesis
    by cases (simp_all add: eval_nat_numeral floor_divide_numeral_rat)
qed

lemma cost_seq_Suc_le: "(of_int (cost_seq (Suc n)) :: rat) \<le> 3 / 2 * of_int (cost_seq n)"
proof -
  have "(of_int \<lfloor>(of_int (3 * cost_seq n) :: rat) / of_int 2\<rfloor> :: rat)
      \<le> of_int (3 * cost_seq n) / of_int 2"
    by (rule of_int_floor_le)
  then have "(of_int (3 * cost_seq n div 2) :: rat) \<le> of_int (3 * cost_seq n) / of_int 2"
    by (simp only: floor_divide_of_int_eq)
  then show ?thesis by simp
qed

lemma cost_seq_gap:
  "4 \<le> n \<Longrightarrow> (of_int (cost_seq n) :: rat) + 5 / 4 * (3 / 2) ^ (n - 4) \<le> 100 * (3 / 2) ^ n"
proof (induction n rule: nat_induct_at_least)
  case base
  show ?case by (simp add: eval_nat_numeral)
next
  case (Suc n)
  have e: "Suc n - 4 = Suc (n - 4)"
    using Suc.hyps by simp
  have "(of_int (cost_seq (Suc n)) :: rat) + 5 / 4 * (3 / 2) ^ (Suc n - 4)
      \<le> 3 / 2 * (of_int (cost_seq n) + 5 / 4 * (3 / 2) ^ (n - 4))"
    unfolding e power_Suc using cost_seq_Suc_le [of n] by (simp add: algebra_simps)
  also have "\<dots> \<le> 3 / 2 * (100 * (3 / 2) ^ n)"
    using Suc.IH by simp
  finally show ?case by simp
qed

lemma cost_seq_below:
  assumes "4 \<le> n"
  shows "cost_seq n < \<lfloor>100 * (3 / 2 :: rat) ^ n\<rfloor>"
proof -
  have "(1 :: rat) \<le> (3 / 2) ^ (n - 4)"
    by (rule one_le_power) simp
  then have "(of_int (cost_seq n + 1) :: rat) \<le> of_int (cost_seq n) + 5 / 4 * (3 / 2) ^ (n - 4)"
    unfolding of_int_add of_int_1 by linarith
  also have "\<dots> \<le> 100 * (3 / 2) ^ n"
    using assms by (rule cost_seq_gap)
  finally have "cost_seq n + 1 \<le> \<lfloor>100 * (3 / 2 :: rat) ^ n\<rfloor>"
    by (simp only: le_floor_iff)
  then show ?thesis by simp
qed

subsection \<open>The multiplier sequence\<close>

lemma near_from_all:
  "near_from k i m \<Longrightarrow> j < k \<Longrightarrow>
     near (((\<lambda>x. f64_add x f64_0_2) ^^ j) m) (1 + of_nat (i + j) / 5)"
proof (induction k arbitrary: i j m)
  case 0
  then show ?case by simp
next
  case (Suc k)
  show ?case
  proof (cases j)
    case 0
    with Suc.prems show ?thesis by simp
  next
    case (Suc j')
    with Suc.prems have "near_from k (Suc i) (f64_add m f64_0_2)" "j' < k" by simp_all
    from Suc.IH [OF this]
    have "near (((\<lambda>x. f64_add x f64_0_2) ^^ j') (f64_add m f64_0_2)) (1 + of_nat (Suc i + j') / 5)" .
    moreover have "((\<lambda>x. f64_add x f64_0_2) ^^ Suc j') m =
        ((\<lambda>x. f64_add x f64_0_2) ^^ j') (f64_add m f64_0_2)"
      by (simp only: funpow_Suc_right o_apply)
    ultimately show ?thesis unfolding Suc by simp
  qed
qed

lemma near_from_78: "near_from 78 0 f64_1_0"
  by (simp add: eval_nat_numeral near_def f64_eval f64_val_def pow2_def)

lemma multiplier_near:
  assumes "n \<le> 77"
  shows "\<bar>f64_val (Multiplier ((upgraded ^^ n) defaultStation)) - (1 + of_nat n / 5)\<bar> \<le> 1 / 10 ^ 13"
proof -
  from assms have "n < 78" by simp
  from near_from_all [OF near_from_78 this] show ?thesis
    by (simp add: near_def upgraded_funpow_Multiplier defaultStation_def)
qed

subsection \<open>Runs on the example player\<close>

lemmas upgrade_eval = UpgradeStation_def getStationByType_def upgraded_def examplePlayer_def
  defaultProgress_def defaultFactory_def defaultStation_def word_sless_alt Let_def
  mult_step_1 mult_step_2 mult_step_3 mult_step_4 cost_step_1 cost_step_2 cost_step_3 cost_step_4

lemma upgradeTimes_2:
  "upgradeTimes 2 (examplePlayer (defaultProgress\<lparr>Gold := 250\<rparr>)) ''hp'' =
     (True, (examplePlayer (defaultProgress\<lparr>Gold := 0\<rparr>))
        \<lparr>Factory := defaultFactory
          \<lparr>HPStation := \<lparr>Level = 3, Multiplier = F64 6305039478318694 (- 52), Cost = 225\<rparr>\<rparr>\<rparr>)"
  by (simp add: eval_nat_numeral upgrade_eval)

lemma upgradeTimes_4:
  "upgradeTimes 4 (examplePlayer (defaultProgress\<lparr>Gold := 1000\<rparr>)) ''hp'' =
     (True, (examplePlayer (defaultProgress\<lparr>Gold := 188\<rparr>))
        \<lparr>Factory := defaultFactory
          \<lparr>HPStation := \<lparr>Level = 5, Multiplier = F64 8106479329266892 (- 52), Cost = 505\<rparr>\<rparr>\<rparr>)"
  by (simp add: eval_nat_numeral upgrade_eval)

text \<open>A goroutine that runs alone takes six steps and does what \<open>UpgradeStation\<close> does.\<close>

lemma upgrade_steps_sequential:
  "interleave [G1, G1, G1, G1, G1, G1] s1 s2 (Lookup, pc2, player) =
     (Returned (fst (UpgradeStation player s1)), pc2, snd (UpgradeStation player s1))"
proof (cases "getStationByType s1")
  case None
  then show ?thesis by (simp add: UpgradeStation_def)
next
  case (Some r)
  then show ?thesis
    by (simp add: UpgradeStation_def Let_def upgraded_def Station_update_all set_station_same
        set_station_twice)
qed

section \<open>Facts about the registry and the game loop\<close>

lemma getOrCreatePlayer_new:
  assumes "players playerID = None" "8 \<le> length playerID"
  shows "getOrCreatePlayer now playerID players =
    Inr (\<lparr>ID = playerID, Name = ''Player '' @ take 8 playerID, Factory = defaultFactory,
          Progress = defaultProgress, LastSeen = now\<rparr>,
         players(playerID \<mapsto> \<lparr>ID = playerID, Name = ''Player '' @ take 8 playerID,
          Factory = defaultFactory, Progress = defaultProgress, LastSeen = now\<rparr>))"
  using assms by (simp add: getOrCreatePlayer_def Let_def)

lemma getOrCreatePlayer_short:
  assumes "players playerID = None" "length playerID < 8"
  shows "getOrCreatePlayer now playerID players = Inl SliceBoundsOutOfRange"
  using assms by (simp add: getOrCreatePlayer_def)

lemma examplePlayer_created:
  "getOrCreatePlayer 0 ''player_1'' Map.empty =
     Inr (examplePlayer defaultProgress, [''player_1'' \<mapsto> examplePlayer defaultProgress])"
  by (simp add: getOrCreatePlayer_def examplePlayer_def Let_def)

lemma examplePlayer_simps:
  "Progress (examplePlayer p) = p"
  "Factory (examplePlayer p) = defaultFactory"
  "(examplePlayer p)\<lparr>Progress := q\<rparr> = examplePlayer q"
  by (simp_all add: examplePlayer_def)

lemma processPlayer_first:
  "processPlayer (examplePlayer defaultProgress) =
     Some (examplePlayer \<lparr>DungeonLevel = 2, Gold = 12, Experience = 6\<rparr>)"
  by (simp add: processPlayer_def examplePlayer_def defaultProgress_def createHero_default
      simulateBattle_default_1)

lemma processPlayer_stuck:
  "processPlayer (examplePlayer \<lparr>DungeonLevel = 2, Gold = g, Experience = 6\<rparr>) =
     Some (examplePlayer \<lparr>DungeonLevel = 2, Gold = g + 7, Experience = 6\<rparr>)"
  by (simp add: processPlayer_def examplePlayer_def createHero_default
      simulateBattle_default_2 div_i64_def signed_divide_int_def)

lemma ticks_stuck:
  "ticks n (examplePlayer \<lparr>DungeonLevel = 2, Gold = g, Experience = 6\<rparr>) =
     Some (examplePlayer \<lparr>DungeonLevel = 2, Gold = g + 7 * of_nat n, Experience = 6\<rparr>)"
proof (induction n arbitrary: g)
  case 0
  show ?case by simp
next
  case (Suc n)
  show ?case
    by (simp add: processPlayer_stuck Suc.IH algebra_simps)
qed

lemma ticks_example:
  "ticks (Suc n) (examplePlayer defaultProgress) =
     Some (examplePlayer \<lparr>DungeonLevel = 2, Gold = 12 + 7 * of_nat n, Experience = 6\<rparr>)"
  by (simp add: processPlayer_first ticks_stuck)

lemma sint_reward:
  fixes level loot :: i64
  assumes "0 \<le> (10 + 2 * sint level) * sint loot" "(10 + 2 * sint level) * sint loot < 2 ^ 63"
  shows "sint ((10 + 2 * level) * loot) = (10 + 2 * sint level) * sint loot"
proof -
  have "(10 + 2 * level) * loot = word_of_int ((10 + 2 * sint level) * sint loot)"
    by simp
  then show ?thesis
    using assms by (simp only: sint_of_int_i64)
qed

lemma processPlayer_keeps_gold_nonneg:
  assumes gold: "0 \<le>s Gold (Progress player)"
    and reward: "0 \<le> (10 + 2 * sint (DungeonLevel (Progress player))) * sint (Loot (createHero (Factory player)))"
    and room: "sint (Gold (Progress player))
        + (10 + 2 * sint (DungeonLevel (Progress player))) * sint (Loot (createHero (Factory player))) < 2 ^ 63"
    and level: "sint (DungeonLevel (Progress player)) + 1 < 2 ^ 63"
  shows "\<exists>player'. processPlayer player = Some player' \<and> 0 \<le>s Gold (Progress player')
    \<and> DungeonLevel (Progress player) \<le>s DungeonLevel (Progress player')"
proof -
  let ?L = "DungeonLevel (Progress player)"
  let ?G = "Gold (Progress player)"
  let ?w = "(10 + 2 * ?L) * Loot (createHero (Factory player))"
  let ?r = "(10 + 2 * sint ?L) * sint (Loot (createHero (Factory player)))"
  have g: "0 \<le> sint ?G" using gold by (simp add: word_sle_eq)
  have w: "sint ?w = ?r"
    using reward room g by (intro sint_reward) simp_all
  have half: "sint (div_i64 ?w 2) = ?r div 2"
    using reward by (simp add: sint_div_i64_2 w sgn_if)
  have "?r div 2 \<le> ?r" using reward by simp
  have win: "sint (?G + ?w) = sint ?G + ?r"
    using g reward room by (subst sint_add_no_wrap) (simp_all add: w)
  have lose: "sint (?G + div_i64 ?w 2) = sint ?G + ?r div 2"
    using g reward room \<open>?r div 2 \<le> ?r\<close> by (subst sint_add_no_wrap) (simp_all add: half)
  have up: "sint (?L + 1) = sint ?L + 1"
    using level sint_ge [of ?L] by (subst sint_add_no_wrap) simp_all
  obtain victory where sim: "simulateBattle (createHero (Factory player)) ?L =
       Some \<lparr>Victory = victory, GoldReward = ?w, ExpReward = 5 + ?L\<rparr>"
    using simulateBattle_rewards by blast
  show ?thesis
  proof (cases victory)
    case True
    with sim win up g reward show ?thesis
      by (simp add: processPlayer_def word_sle_eq)
  next
    case False
    with sim lose g reward show ?thesis
      by (simp add: processPlayer_def word_sle_eq)
  qed
qed

subsection \<open>The invariant\<close>

lemma rne_nonneg: "0 \<le> M \<Longrightarrow> 0 \<le> rne M k"
  by (simp add: rne_def Let_def pos_imp_zdiv_nonneg_iff)

lemma f64_round_nonneg: "0 \<le> M \<Longrightarrow> 0 \<le> mant (f64_round M E)"
  by (simp add: f64_round_def Let_def rne_nonneg)

lemma f64_add_nonneg: "0 \<le> mant x \<Longrightarrow> 0 \<le> mant y \<Longrightarrow> 0 \<le> mant (f64_add x y)"
  by (simp add: f64_add_def Let_def f64_round_nonneg)

lemma f64_mul_nonneg: "0 \<le> mant x \<Longrightarrow> 0 \<le> mant y \<Longrightarrow> 0 \<le> mant (f64_mul x y)"
  by (simp add: f64_mul_def f64_round_nonneg)

lemma f64_of_i64_nonneg: "0 \<le>s i \<Longrightarrow> 0 \<le> mant (f64_of_i64 i)"
  by (simp add: f64_of_i64_def f64_round_nonneg word_sle_eq)

lemma f64_trunc_nonneg: "0 \<le> mant x \<Longrightarrow> 0 \<le> f64_trunc x"
  by (simp add: f64_trunc_def sgn_if pos_imp_zdiv_nonneg_iff)

lemma i64_of_f64_in_range:
  "0 \<le> mant x \<Longrightarrow> f64_trunc x < 2 ^ 63 \<Longrightarrow> sint (i64_of_f64 x) = f64_trunc x"
  using f64_trunc_nonneg [of x] by (simp add: i64_of_f64_def Let_def sint_of_int_i64)

lemma station_ok_default: "station_ok defaultStation"
  by (simp add: station_ok_def defaultStation_def f64_1_0_def word_sle_eq)

lemma station_ok_upgraded:
  assumes "station_ok s"
    and "f64_trunc (f64_mul (f64_of_i64 (Cost s)) f64_1_5) < 2 ^ 63"
  shows "station_ok (upgraded s)"
proof -
  from assms(1) have c: "0 \<le>s Cost s" and m: "0 \<le> mant (Multiplier s)"
    by (simp_all add: station_ok_def)
  have "0 \<le> mant (f64_mul (f64_of_i64 (Cost s)) f64_1_5)"
    by (intro f64_mul_nonneg f64_of_i64_nonneg c) (simp add: f64_1_5_def)
  then have "0 \<le> sint (i64_of_f64 (f64_mul (f64_of_i64 (Cost s)) f64_1_5))"
    using assms(2) by (simp add: i64_of_f64_in_range f64_trunc_nonneg)
  moreover have "0 \<le> mant (f64_add (Multiplier s) f64_0_2)"
    by (intro f64_add_nonneg m) (simp add: f64_0_2_def)
  ultimately show ?thesis
    by (simp add: station_ok_def upgraded_def word_sle_eq)
qed

lemma player_ok_stations: "player_ok p \<Longrightarrow> station_ok (station_of (Factory p) ref)"
  by (cases ref) (simp_all add: player_ok_def)

lemma player_ok_set_station:
  assumes "player_ok p" "station_ok s" "0 \<le>s g"
  shows "player_ok (p\<lparr>Progress := (Progress p)\<lparr>Gold := g\<rparr>, Factory := set_station ref s (Factory p)\<rparr>)"
  using assms by (cases ref) (simp_all add: player_ok_def)

lemma UpgradeStation_player_ok:
  assumes ok: "player_ok p"
    and room: "\<And>ref. getStationByType k = Some ref \<Longrightarrow>
        f64_trunc (f64_mul (f64_of_i64 (Cost (station_of (Factory p) ref))) f64_1_5) < 2 ^ 63"
  shows "player_ok (snd (UpgradeStation p k))
    \<and> DungeonLevel (Progress (snd (UpgradeStation p k))) = DungeonLevel (Progress p)"
proof (cases "getStationByType k")
  case None
  with ok show ?thesis by (simp add: UpgradeStation_def)
next
  case (Some ref)
  let ?s = "station_of (Factory p) ref"
  have s: "station_ok ?s" using ok by (rule player_ok_stations)
  then have c: "0 \<le> sint (Cost ?s)" by (simp add: station_ok_def word_sle_eq)
  show ?thesis
  proof (cases "Gold (Progress p) <s Cost ?s")
    case True
    with Some ok show ?thesis by (simp add: UpgradeStation_def)
  next
    case False
    then have le: "sint (Cost ?s) \<le> sint (Gold (Progress p))" by (simp add: word_sless_alt)
    have "sint (Gold (Progress p) - Cost ?s) = sint (Gold (Progress p)) - sint (Cost ?s)"
      using c le sint_lt [of "Gold (Progress p)"]
      by (simp add: sint_word_ariths signed_take_bit_int_eq_self)
    with le have g: "0 \<le>s Gold (Progress p) - Cost ?s" by (simp add: word_sle_eq)
    have "station_ok (upgraded ?s)"
      using s room [OF Some] by (rule station_ok_upgraded)
    from player_ok_set_station [OF ok this g] Some False show ?thesis
      by (simp add: UpgradeStation_def Let_def)
  qed
qed

lemma createHero_loot_nonneg:
  assumes "player_ok p"
    and "f64_trunc (f64_mul (f64_of_i64 1) (Multiplier (LootStation (Factory p)))) < 2 ^ 63"
  shows "0 \<le> sint (Loot (createHero (Factory p)))"
proof -
  have "0 \<le> mant (f64_mul (f64_of_i64 1) (Multiplier (LootStation (Factory p))))"
    using assms(1) by (intro f64_mul_nonneg f64_of_i64_nonneg) (simp_all add: player_ok_def station_ok_def word_sle_eq)
  then show ?thesis
    using assms(2) by (simp add: createHero_def i64_of_f64_in_range f64_trunc_nonneg)
qed

lemma processPlayer_player_ok:
  assumes ok: "player_ok p"
    and loot: "f64_trunc (f64_mul (f64_of_i64 1) (Multiplier (LootStation (Factory p)))) < 2 ^ 63"
    and room: "sint (Gold (Progress p))
        + (10 + 2 * sint (DungeonLevel (Progress p))) * sint (Loot (createHero (Factory p))) < 2 ^ 63"
    and level: "sint (DungeonLevel (Progress p)) + 1 < 2 ^ 63"
  shows "\<exists>p'. processPlayer p = Some p' \<and> player_ok p'
    \<and> DungeonLevel (Progress p) \<le>s DungeonLevel (Progress p')"
proof -
  have g: "0 \<le>s Gold (Progress p)" and l1: "1 \<le> sint (DungeonLevel (Progress p))"
    using ok by (simp_all add: player_ok_def word_sle_eq)
  then have l: "0 \<le> sint (DungeonLevel (Progress p))" by simp
  have "0 \<le> sint (Loot (createHero (Factory p)))"
    using ok loot by (rule createHero_loot_nonneg)
  with l have reward: "0 \<le> (10 + 2 * sint (DungeonLevel (Progress p))) * sint (Loot (createHero (Factory p)))"
    by simp
  from processPlayer_keeps_gold_nonneg [OF g reward room level]
  obtain p' where p': "processPlayer p = Some p'" "0 \<le>s Gold (Progress p')"
    "DungeonLevel (Progress p) \<le>s DungeonLevel (Progress p')"
    by blast
  from p'(1) have "Factory p' = Factory p"
    by (auto simp: processPlayer_def split: option.splits if_splits)
  with ok p'(2,3) l1 have "player_ok p'"
    by (simp add: player_ok_def word_sle_eq)
  with p' show ?thesis by blast
qed

lemma player_ok_created:
  "player_ok \<lparr>ID = playerID, Name = name, Factory = defaultFactory, Progress = defaultProgress,
     LastSeen = now\<rparr>"
  by (simp add: player_ok_def defaultFactory_def defaultProgress_def station_ok_default word_sle_eq)

lemma getOrCreatePlayer_player_ok:
  assumes "getOrCreatePlayer now playerID players = Inr (created, players')"
  shows "(case players playerID of
            Some old \<Rightarrow> Progress created = Progress old \<and> Factory created = Factory old
          | None \<Rightarrow> player_ok created \<and> Gold (Progress created) = 0
              \<and> DungeonLevel (Progress created) = 1)"
proof (cases "players playerID")
  case None
  with assms have "created = \<lparr>ID = playerID, Name = ''Player '' @ take 8 playerID,
      Factory = defaultFactory, Progress = defaultProgress, LastSeen = now\<rparr>"
    by (auto simp: getOrCreatePlayer_def Let_def split: if_splits)
  with None show ?thesis
    by (simp add: player_ok_created) (simp add: defaultProgress_def)
next
  case (Some old)
  with assms show ?thesis
    by (auto simp: getOrCreatePlayer_def Let_def)
qed

lemma player_ok_seen: "player_ok p \<Longrightarrow> player_ok (p\<lparr>LastSeen := now\<rparr>)"
  by (simp add: player_ok_def)

lemma reachable_player_ok: "reachable p \<Longrightarrow> player_ok p"
proof (induction rule: reachable.induct)
  case (created players playerID now p players')
  from getOrCreatePlayer_player_ok [OF created(2)] created(1) show ?case by simp
next
  case (seen p now)
  then show ?case by (simp add: player_ok_seen)
next
  case (upgrade p stationType)
  then show ?case
    by (intro UpgradeStation_player_ok [THEN conjunct1]) (simp_all add: in_bounds_def)
next
  case (tick p p')
  from processPlayer_player_ok [of p] tick show ?case
    by (auto simp: in_bounds_def)
qed

lemma reachable_example: "reachable (examplePlayer defaultProgress)"
  by (rule reachable.created [of Map.empty "''player_1''" 0 _ "[''player_1'' \<mapsto> examplePlayer defaultProgress]"])
     (simp_all add: examplePlayer_created)

section \<open>The claims\<close>

text \<open>
  C1. The claim: \<open>n\<close> successful upgrades of one station that starts at the default
  (level 1, multiplier 1.0, cost 100) leave its cost at \<open>floor(100 * 1.5 ^ n)\<close> and its
  multiplier at \<open>1.0 + 0.2 * n\<close>, within floating-point tolerance.

  The cost is recomputed from the previous, already truncated cost, so after four
  upgrades of the hp station it is 505, while \<open>floor(100 * 1.5 ^ 4)\<close> is 506.
\<close>

theorem C1_cost_closed_form_counterexample:
  "upgradeTimes 4 (examplePlayer (defaultProgress\<lparr>Gold := 1000\<rparr>)) ''hp'' =
     (True, (examplePlayer (defaultProgress\<lparr>Gold := 188\<rparr>))
        \<lparr>Factory := defaultFactory
          \<lparr>HPStation := \<lparr>Level = 5, Multiplier = F64 8106479329266892 (- 52), Cost = 505\<rparr>\<rparr>\<rparr>)
   \<and> \<lfloor>100 * (3 / 2 :: rat) ^ 4\<rfloor> = 506
   \<and> sint (Cost (HPStation (Factory (snd (upgradeTimes 4
         (examplePlayer (defaultProgress\<lparr>Gold := 1000\<rparr>)) ''hp'')))))
       \<noteq> \<lfloor>100 * (3 / 2 :: rat) ^ 4\<rfloor>"
  by (simp add: upgradeTimes_4 power_divide floor_divide_numeral_rat)

text \<open>
  C1, as amended. For every station type and every \<open>n \<le> 77\<close>, \<open>n\<close> successful calls of
  \<open>UpgradeStation\<close> on one station that starts at the default leave its cost at
  \<open>cost_seq n\<close>, the sequence 100, 150, 225, 337, 505, ... in which each cost is the
  truncation of one and a half times the previous one; this is \<open>floor(100 * 1.5 ^ n)\<close>
  for \<open>n \<le> 3\<close> and less than it from \<open>n = 4\<close> on; and the multiplier differs from
  \<open>1 + 0.2 * n\<close> by at most \<open>10 ^ -13\<close>. (Up to 77 upgrades three times the cost stays
  below \<open>2 ^ 53\<close>, so the float product is exact.)
\<close>

theorem C1_upgrade_growth:
  assumes "getStationByType stationType = Some ref"
    and "station_of (Factory player) ref = defaultStation"
    and "upgradeTimes n player stationType = (True, player')"
    and "n \<le> 77"
  shows "sint (Cost (station_of (Factory player') ref)) = cost_seq n
    \<and> (n \<le> 3 \<longrightarrow> sint (Cost (station_of (Factory player') ref)) = \<lfloor>100 * (3 / 2 :: rat) ^ n\<rfloor>)
    \<and> (4 \<le> n \<longrightarrow> sint (Cost (station_of (Factory player') ref)) < \<lfloor>100 * (3 / 2 :: rat) ^ n\<rfloor>)
    \<and> \<bar>f64_val (Multiplier (station_of (Factory player') ref)) - (1 + of_nat n / 5)\<bar> \<le> 1 / 10 ^ 13"
proof -
  have s: "station_of (Factory player') ref = (upgraded ^^ n) defaultStation"
    using upgradeTimes_success [OF assms(3) assms(1)] assms(2) by simp
  show ?thesis
    unfolding s
    using upgraded_funpow_Cost [OF assms(4)] multiplier_near [OF assms(4)]
      cost_seq_closed_form [of n] cost_seq_below [of n]
    by simp
qed

theorem C1_upgrade_growth_witness:
  "sint (Cost (HPStation (Factory (snd (upgradeTimes 2
       (examplePlayer (defaultProgress\<lparr>Gold := 250\<rparr>)) ''hp''))))) = 225
   \<and> \<bar>f64_val (Multiplier (HPStation (Factory (snd (upgradeTimes 2
       (examplePlayer (defaultProgress\<lparr>Gold := 250\<rparr>)) ''hp''))))) - 7 / 5\<bar> \<le> 1 / 10 ^ 13"
proof -
  have g: "getStationByType ''hp'' = Some HPRef"
    by (simp add: getStationByType_def)
  have d: "station_of (Factory (examplePlayer (defaultProgress\<lparr>Gold := 250\<rparr>))) HPRef = defaultStation"
    by (simp add: examplePlayer_def defaultFactory_def)
  have n: "(2 :: nat) \<le> 77" by simp
  have c: "cost_seq 2 = 225" by (simp add: eval_nat_numeral)
  from C1_upgrade_growth [OF g d upgradeTimes_2 n] show ?thesis
    by (simp add: upgradeTimes_2 c)
qed

text \<open>
  C2. The claim: for every identifier not seen before, in particular the two-character
  \<open>p1\<close>, \<open>getOrCreatePlayer\<close> returns a player with the default progress and factory,
  without panicking.

  On \<open>p1\<close> and an empty registry the source panics: the name of the new player is built
  from \<open>playerID[:8]\<close>, and the identifier has two bytes.
\<close>

theorem C2_getOrCreatePlayer_p1_panics:
  "getOrCreatePlayer now ''p1'' Map.empty = Inl SliceBoundsOutOfRange"
  by (simp add: getOrCreatePlayer_def)

text \<open>
  C3. For every hero and every dungeon level, \<open>simulateBattle\<close> returns exactly the
  outcomes of the algorithm of the specification: enemy hit points \<open>50 + 10 * level\<close>,
  enemy attack \<open>15 + 5 * level\<close>, damages \<open>max(1, attack - enemyAttack / 2)\<close> (truncating
  division) and \<open>max(1, enemyAttack - armor)\<close> fixed for the whole battle, the hero
  striking first, the battle ending at once when a strike of the hero brings the enemy
  to 0 or below, the enemy striking back otherwise, until one side is at 0 or below;
  victory holds iff the hero's hit points are positive at the end; the rewards are
  \<open>(10 + 2 * level) * loot\<close> and \<open>5 + level\<close>. In \<open>resolveBattle_spec\<close> the damages are
  \<open>heroDamage_spec\<close> and \<open>enemyDamage_spec\<close>, whose \<open>max\<close> is the greater of the two integer
  values and whose division is the exact quotient rounded towards zero; neither is
  defined through the source's helpers. The default factory yields the hero
  hp 100, armor 10, attack 20, loot 1, whose damage and the enemy's are both 10 at
  dungeon level 1 and who wins there with gold reward 12 and experience reward 6.
\<close>

theorem C3_simulateBattle_follows_spec:
  "(\<forall>outcome. (simulateBattle hero dungeonLevel = Some outcome) =
       resolveBattle_spec hero dungeonLevel outcome)
   \<and> createHero defaultFactory = \<lparr>HP = 100, Armor = 10, Attack = 20, Loot = 1\<rparr>
   \<and> heroDamage_spec (createHero defaultFactory) 1 = 10
   \<and> enemyDamage_spec (createHero defaultFactory) 1 = 10
   \<and> simulateBattle (createHero defaultFactory) 1 =
       Some \<lparr>Victory = True, GoldReward = 12, ExpReward = 6\<rparr>"
  by (simp add: simulateBattle_iff_spec createHero_default simulateBattle_default_1
      damages_spec_default_1)

theorem C3_simulateBattle_follows_spec_witness:
  "simulateBattle \<lparr>HP = 1, Armor = 0, Attack = 70, Loot = 2\<rparr> 1 =
     Some \<lparr>Victory = True, GoldReward = 24, ExpReward = 6\<rparr>
   \<and> simulateBattle \<lparr>HP = 1, Armor = 10, Attack = 7, Loot = 1\<rparr> (- 4) =
     Some \<lparr>Victory = False, GoldReward = 2, ExpReward = 1\<rparr>
   \<and> resolveBattle_spec \<lparr>HP = 100, Armor = 10, Attack = 20, Loot = 1\<rparr> 1
     \<lparr>Victory = True, GoldReward = 12, ExpReward = 6\<rparr>"
  using C3_simulateBattle_follows_spec [of "\<lparr>HP = 1, Armor = 0, Attack = 70, Loot = 2\<rparr>" 1]
    C3_simulateBattle_follows_spec [of "\<lparr>HP = 1, Armor = 10, Attack = 7, Loot = 1\<rparr>" "- 4"]
    C3_simulateBattle_follows_spec [of "\<lparr>HP = 100, Armor = 10, Attack = 20, Loot = 1\<rparr>" 1]
    resolveBattle_spec_strong_hero resolveBattle_spec_negative_level simulateBattle_default_1
  by blast

text \<open>
  C4. The claim: in every reachable state of a player the gold is not negative and the
  dungeon level never decreases; every operation preserves both.

  The gold is a 64-bit integer and the rewards are added without a check. A player who
  is created and never upgrades wins the first battle, loses every later one and earns
  7 gold per tick; after 1317624576693539401 ticks the sum has passed \<open>2 ^ 63 - 1\<close> and
  the gold is negative.
\<close>

theorem C4_gold_wraps_negative_counterexample:
  "getOrCreatePlayer 0 ''player_1'' Map.empty =
     Inr (examplePlayer defaultProgress, [''player_1'' \<mapsto> examplePlayer defaultProgress])
   \<and> ticks 1317624576693539401 (examplePlayer defaultProgress) =
     Some (examplePlayer \<lparr>DungeonLevel = 2, Gold = 9223372036854775812, Experience = 6\<rparr>)
   \<and> sint (9223372036854775812 :: i64) = - 9223372036854775804
   \<and> (9223372036854775812 :: i64) <s 0"
proof -
  have "(1317624576693539401 :: nat) = Suc 1317624576693539400" by simp
  then have "ticks 1317624576693539401 (examplePlayer defaultProgress) =
     Some (examplePlayer \<lparr>DungeonLevel = 2, Gold = 12 + 7 * of_nat 1317624576693539400, Experience = 6\<rparr>)"
    by (simp only: ticks_example)
  then show ?thesis
    by (simp add: examplePlayer_created word_sless_alt)
qed

text \<open>
  C4, as amended. Every state that a player reaches, one operation after the other and
  through states in which no 64-bit value overflows, satisfies the invariant
  \<open>player_ok\<close>: the gold is not negative, the dungeon level is positive, and the costs
  and multipliers of the stations are not negative. Operation by operation:
  \<open>getOrCreatePlayer\<close> leaves the progress and the factory of a known player as they are
  and creates a new one that satisfies the invariant, with gold 0 and dungeon level 1;
  \<open>UpgradeStation\<close> keeps the invariant and the dungeon level when \<open>float64(cost) * 1.5\<close>
  of the station is below \<open>2 ^ 63\<close>; \<open>processPlayer\<close> keeps the invariant and returns a
  dungeon level that is not smaller when the hero's loot as a float, the gold plus the
  reward \<open>(10 + 2 * level) * loot\<close> and the level plus 1 are below \<open>2 ^ 63\<close>.
\<close>

theorem C4_gold_and_level_preserved:
  "(reachable player \<longrightarrow> player_ok player)
   \<and> (player_ok player \<longrightarrow>
        0 \<le>s Gold (Progress player) \<and> 1 \<le>s DungeonLevel (Progress player))
   \<and> (getOrCreatePlayer now playerID players = Inr (created, players') \<longrightarrow>
      (case players playerID of
         Some old \<Rightarrow> Progress created = Progress old \<and> Factory created = Factory old
       | None \<Rightarrow> player_ok created \<and> Gold (Progress created) = 0
           \<and> DungeonLevel (Progress created) = 1))
   \<and> (player_ok player
        \<and> (\<forall>ref. getStationByType stationType = Some ref \<longrightarrow>
              f64_trunc (f64_mul (f64_of_i64 (Cost (station_of (Factory player) ref))) f64_1_5)
                < 2 ^ 63) \<longrightarrow>
      player_ok (snd (UpgradeStation player stationType))
      \<and> DungeonLevel (Progress (snd (UpgradeStation player stationType)))
          = DungeonLevel (Progress player))
   \<and> (player_ok player
        \<and> f64_trunc (f64_mul (f64_of_i64 1) (Multiplier (LootStation (Factory player)))) < 2 ^ 63
        \<and> sint (Gold (Progress player))
            + (10 + 2 * sint (DungeonLevel (Progress player)))
              * sint (Loot (createHero (Factory player))) < 2 ^ 63
        \<and> sint (DungeonLevel (Progress player)) + 1 < 2 ^ 63 \<longrightarrow>
      (\<exists>player'. processPlayer player = Some player' \<and> player_ok player'
         \<and> DungeonLevel (Progress player) \<le>s DungeonLevel (Progress player')))"
proof (intro conjI impI)
  assume "reachable player"
  then show "player_ok player" by (rule reachable_player_ok)
next
  assume "player_ok player"
  then show "0 \<le>s Gold (Progress player)" and "1 \<le>s DungeonLevel (Progress player)"
    by (simp_all add: player_ok_def)
next
  assume "getOrCreatePlayer now playerID players = Inr (created, players')"
  then show "case players playerID of
         Some old \<Rightarrow> Progress created = Progress old \<and> Factory created = Factory old
       | None \<Rightarrow> player_ok created \<and> Gold (Progress created) = 0
           \<and> DungeonLevel (Progress created) = 1"
    by (rule getOrCreatePlayer_player_ok)
next
  assume h: "player_ok player
        \<and> (\<forall>ref. getStationByType stationType = Some ref \<longrightarrow>
              f64_trunc (f64_mul (f64_of_i64 (Cost (station_of (Factory player) ref))) f64_1_5)
                < 2 ^ 63)"
  then have ok: "player_ok player"
    and room: "\<And>ref. getStationByType stationType = Some ref \<Longrightarrow>
        f64_trunc (f64_mul (f64_of_i64 (Cost (station_of (Factory player) ref))) f64_1_5) < 2 ^ 63"
    by simp_all
  from UpgradeStation_player_ok [of player stationType, OF ok room]
  show "player_ok (snd (UpgradeStation player stationType))"
    and "DungeonLevel (Progress (snd (UpgradeStation player stationType)))
          = DungeonLevel (Progress player)"
    by simp_all
next
  assume "player_ok player
        \<and> f64_trunc (f64_mul (f64_of_i64 1) (Multiplier (LootStation (Factory player)))) < 2 ^ 63
        \<and> sint (Gold (Progress player))
            + (10 + 2 * sint (DungeonLevel (Progress player)))
              * sint (Loot (createHero (Factory player))) < 2 ^ 63
        \<and> sint (DungeonLevel (Progress player)) + 1 < 2 ^ 63"
  then show "\<exists>player'. processPlayer player = Some player' \<and> player_ok player'
         \<and> DungeonLevel (Progress player) \<le>s DungeonLevel (Progress player')"
    by (intro processPlayer_player_ok) simp_all
qed

theorem C4_gold_and_level_preserved_witness:
  "player_ok (examplePlayer defaultProgress)
   \<and> 0 \<le>s Gold (Progress (examplePlayer defaultProgress))
   \<and> player_ok (snd (UpgradeStation (examplePlayer (defaultProgress\<lparr>Gold := 100\<rparr>)) ''hp''))
   \<and> DungeonLevel (Progress (snd (UpgradeStation (examplePlayer (defaultProgress\<lparr>Gold := 100\<rparr>)) ''hp''))) = 1
   \<and> (\<exists>player'. processPlayer (examplePlayer (defaultProgress\<lparr>Gold := 100\<rparr>)) = Some player'
         \<and> player_ok player' \<and> 1 \<le>s DungeonLevel (Progress player'))"
proof -
  let ?p = "examplePlayer (defaultProgress\<lparr>Gold := 100\<rparr>)"
  have ok: "player_ok ?p"
    by (simp add: player_ok_def examplePlayer_def defaultProgress_def defaultFactory_def
        station_ok_default word_sle_eq)
  have hero: "createHero (Factory ?p) = \<lparr>HP = 100, Armor = 10, Attack = 20, Loot = 1\<rparr>"
    by (simp add: examplePlayer_def createHero_default)
  have progress: "Gold (Progress ?p) = 100" "DungeonLevel (Progress ?p) = 1"
    by (simp_all add: examplePlayer_def defaultProgress_def)
  have cost: "f64_trunc (f64_mul (f64_of_i64 (Cost (station_of (Factory ?p) ref))) f64_1_5) = 150" for ref
    by (cases ref) (simp_all add: examplePlayer_def defaultFactory_def defaultStation_def f64_eval)
  have loot: "f64_trunc (f64_mul (f64_of_i64 1) (Multiplier (LootStation (Factory ?p)))) = 1"
    by (simp add: examplePlayer_def defaultFactory_def defaultStation_def f64_eval)
  have a: "player_ok (examplePlayer defaultProgress)
      \<and> 0 \<le>s Gold (Progress (examplePlayer defaultProgress))"
    using C4_gold_and_level_preserved [of "examplePlayer defaultProgress"] reachable_example
    by simp
  have b: "player_ok (snd (UpgradeStation ?p ''hp''))
      \<and> DungeonLevel (Progress (snd (UpgradeStation ?p ''hp''))) = 1
      \<and> (\<exists>player'. processPlayer ?p = Some player'
         \<and> player_ok player' \<and> 1 \<le>s DungeonLevel (Progress player'))"
    using C4_gold_and_level_preserved [of ?p 0 "''player_1''" Map.empty "examplePlayer defaultProgress"
      "[''player_1'' \<mapsto> examplePlayer defaultProgress]" "''hp''"]
    by (simp add: ok hero progress cost loot)
  from a b show ?thesis by simp
qed

text \<open>
  C5. For every player and every station of the factory: if the gold is less than the
  cost of the station, \<open>UpgradeStation\<close> on that station returns false and leaves the
  player as it is: the gold, and the level, multiplier and cost of the station.
\<close>

theorem C5_underfunded_upgrade_is_rejected:
  assumes "getStationByType stationType = Some ref"
    and "Gold (Progress player) <s Cost (station_of (Factory player) ref)"
  shows "UpgradeStation player stationType = (False, player)"
  using assms by (rule UpgradeStation_fails)

theorem C5_underfunded_upgrade_is_rejected_witness:
  "UpgradeStation (examplePlayer (defaultProgress\<lparr>Gold := 99\<rparr>)) ''armor'' =
     (False, examplePlayer (defaultProgress\<lparr>Gold := 99\<rparr>))"
  by (rule C5_underfunded_upgrade_is_rejected [where ref = ArmorRef])
     (simp_all add: getStationByType_def examplePlayer_def defaultProgress_def defaultFactory_def
        defaultStation_def word_sless_alt)

text \<open>
  C6. \<open>processPlayer\<close> updates the progress as follows, for every player: the battle of
  the hero of the factory at the current dungeon level returns an outcome whose rewards
  are \<open>(10 + 2 * level) * loot\<close> gold and \<open>5 + level\<close> experience, won or lost; on victory
  the dungeon level goes up by 1, the gold by the gold reward and the experience by the
  experience reward; on defeat the gold goes up by half the gold reward, the division
  truncating towards zero, and the dungeon level and the experience stay.
\<close>

theorem C6_processPlayer_applies_outcome:
  "\<exists>victory.
     simulateBattle (createHero (Factory player)) (DungeonLevel (Progress player)) =
       Some \<lparr>Victory = victory,
             GoldReward = (10 + 2 * DungeonLevel (Progress player)) * Loot (createHero (Factory player)),
             ExpReward = 5 + DungeonLevel (Progress player)\<rparr>
     \<and> processPlayer player =
       Some (if victory then
               player\<lparr>Progress := (Progress player)
                 \<lparr>DungeonLevel := DungeonLevel (Progress player) + 1,
                  Gold := Gold (Progress player)
                    + (10 + 2 * DungeonLevel (Progress player)) * Loot (createHero (Factory player)),
                  Experience := Experience (Progress player) + (5 + DungeonLevel (Progress player))\<rparr>\<rparr>
             else
               player\<lparr>Progress := (Progress player)
                 \<lparr>Gold := Gold (Progress player)
                    + div_i64 ((10 + 2 * DungeonLevel (Progress player))
                        * Loot (createHero (Factory player))) 2\<rparr>\<rparr>)
     \<and> sint (div_i64 ((10 + 2 * DungeonLevel (Progress player)) * Loot (createHero (Factory player))) 2)
         = sgn (sint ((10 + 2 * DungeonLevel (Progress player)) * Loot (createHero (Factory player))))
           * (\<bar>sint ((10 + 2 * DungeonLevel (Progress player)) * Loot (createHero (Factory player)))\<bar> div 2)"
proof -
  obtain victory where
    "simulateBattle (createHero (Factory player)) (DungeonLevel (Progress player)) =
       Some \<lparr>Victory = victory,
             GoldReward = (10 + 2 * DungeonLevel (Progress player)) * Loot (createHero (Factory player)),
             ExpReward = 5 + DungeonLevel (Progress player)\<rparr>"
    using simulateBattle_rewards by blast
  then show ?thesis
    by (intro exI [of _ victory]) (simp add: processPlayer_def sint_div_i64_2)
qed

theorem C6_processPlayer_applies_outcome_witness:
  "processPlayer (examplePlayer defaultProgress) =
     Some (examplePlayer \<lparr>DungeonLevel = 2, Gold = 12, Experience = 6\<rparr>)
   \<and> processPlayer (examplePlayer \<lparr>DungeonLevel = 2, Gold = 12, Experience = 6\<rparr>) =
     Some (examplePlayer \<lparr>DungeonLevel = 2, Gold = 19, Experience = 6\<rparr>)"
proof -
  have half: "div_i64 14 2 = 7"
    by (simp add: div_i64_def signed_divide_int_def)
  from C6_processPlayer_applies_outcome [of "examplePlayer defaultProgress"]
  have a: "processPlayer (examplePlayer defaultProgress) =
     Some (examplePlayer \<lparr>DungeonLevel = 2, Gold = 12, Experience = 6\<rparr>)"
    by (auto simp: examplePlayer_simps createHero_default simulateBattle_default_1 defaultProgress_def)
  from C6_processPlayer_applies_outcome [of "examplePlayer \<lparr>DungeonLevel = 2, Gold = 12, Experience = 6\<rparr>"]
  have b: "processPlayer (examplePlayer \<lparr>DungeonLevel = 2, Gold = 12, Experience = 6\<rparr>) =
     Some (examplePlayer \<lparr>DungeonLevel = 2, Gold = 19, Experience = 6\<rparr>)"
    by (auto simp: examplePlayer_simps createHero_default simulateBattle_default_2 half)
  from a b show ?thesis by simp
qed

text \<open>
  C7. For every station type other than \<open>hp\<close>, \<open>armor\<close>, \<open>attack\<close> and \<open>loot\<close>,
  \<open>UpgradeStation\<close> returns false and leaves the player as it is: the four stations and
  the gold, dungeon level and experience.
\<close>

theorem C7_unknown_station_is_rejected:
  assumes "stationType \<notin> {''hp'', ''armor'', ''attack'', ''loot''}"
  shows "UpgradeStation player stationType = (False, player)"
  using assms by (simp add: UpgradeStation_def getStationByType_def)

theorem C7_unknown_station_is_rejected_witness:
  "UpgradeStation (examplePlayer (defaultProgress\<lparr>Gold := 1000\<rparr>)) ''HP'' =
     (False, examplePlayer (defaultProgress\<lparr>Gold := 1000\<rparr>))"
  by (rule C7_unknown_station_is_rejected) simp

text \<open>
  C8. The claim: of two concurrent upgrades of the same station of a player whose gold
  is exactly the cost, one succeeds and one fails; never both.

  \<open>UpgradeStation\<close> takes no lock. When both goroutines pass the check of the gold
  before either deducts the cost, both upgrades succeed: from gold 100 and cost 100 the
  station ends at level 3 and cost 225, and the gold at -150.
\<close>

theorem C8_concurrent_upgrades_both_succeed:
  "interleave [G1, G1, G2, G2, G1, G1, G1, G1, G2, G2, G2, G2] ''hp'' ''hp''
     (Lookup, Lookup, examplePlayer (defaultProgress\<lparr>Gold := 100\<rparr>)) =
   (Returned True, Returned True,
    (examplePlayer (defaultProgress\<lparr>Gold := - 150\<rparr>))
      \<lparr>Factory := defaultFactory
        \<lparr>HPStation := \<lparr>Level = 3, Multiplier = F64 6305039478318694 (- 52), Cost = 225\<rparr>\<rparr>\<rparr>)"
  by (simp add: examplePlayer_def defaultProgress_def defaultFactory_def defaultStation_def
      getStationByType_def word_sless_alt Let_def mult_step_1 mult_step_2 cost_step_1 cost_step_2)

text \<open>
  C9. \<open>simulateBattle\<close> terminates for every hero (arbitrary 64-bit hp, armor, attack and
  loot) and every 64-bit dungeon level: the loop of the battle reaches its exit and the
  function returns an outcome. The hero's damage is \<open>max(1, ...)\<close>, at least 1, so the
  enemy's hit points, positive while the loop runs, strictly decrease in every round
  without wrapping around.
\<close>

theorem C9_simulateBattle_terminates:
  "\<exists>outcome. simulateBattle hero dungeonLevel = Some outcome"
proof -
  obtain fin where "battle_loop (max_i64 1 (Attack hero - div_i64 (15 + dungeonLevel * 5) 2))
      (max_i64 1 (15 + dungeonLevel * 5 - Armor hero)) (HP hero) (50 + dungeonLevel * 10) = Some fin"
    using battle_loop_returns [OF max_i64_ge1] by blast
  then show ?thesis
    by (cases fin) (simp add: simulateBattle_def)
qed

text \<open>
  C10. A successful \<open>UpgradeStation\<close> changes the station it names and the gold, and
  nothing else: the other three stations, the dungeon level, the experience, the
  identifier, the name and the time last seen are as before. The station is upgraded
  (level, multiplier and cost) and the gold is reduced by the old cost.
\<close>

theorem C10_upgrade_frame:
  assumes "UpgradeStation player stationType = (True, player')"
    and "getStationByType stationType = Some ref"
  shows "(\<forall>other. other \<noteq> ref \<longrightarrow>
            station_of (Factory player') other = station_of (Factory player) other)
    \<and> DungeonLevel (Progress player') = DungeonLevel (Progress player)
    \<and> Experience (Progress player') = Experience (Progress player)
    \<and> ID player' = ID player \<and> Name player' = Name player
    \<and> LastSeen player' = LastSeen player
    \<and> station_of (Factory player') ref = upgraded (station_of (Factory player) ref)
    \<and> Gold (Progress player') = Gold (Progress player) - Cost (station_of (Factory player) ref)"
proof -
  from assms(1) obtain r where r: "getStationByType stationType = Some r"
    and p': "player' = player\<lparr>Progress := (Progress player)
              \<lparr>Gold := Gold (Progress player) - Cost (station_of (Factory player) r)\<rparr>,
             Factory := set_station r (upgraded (station_of (Factory player) r)) (Factory player)\<rparr>"
    by (rule UpgradeStation_True)
  from r assms(2) have "r = ref" by simp
  with p' show ?thesis
    by (simp add: set_station_same set_station_other)
qed

theorem C10_upgrade_frame_witness:
  "UpgradeStation (examplePlayer (defaultProgress\<lparr>Gold := 100\<rparr>)) ''hp'' =
     (True, (examplePlayer (defaultProgress\<lparr>Gold := 0\<rparr>))
        \<lparr>Factory := defaultFactory\<lparr>HPStation := upgraded defaultStation\<rparr>\<rparr>)
   \<and> ArmorStation (Factory (snd (UpgradeStation (examplePlayer (defaultProgress\<lparr>Gold := 100\<rparr>)) ''hp'')))
       = defaultStation
   \<and> HPStation (Factory (snd (UpgradeStation (examplePlayer (defaultProgress\<lparr>Gold := 100\<rparr>)) ''hp'')))
       = \<lparr>Level = 2, Multiplier = F64 5404319552844595 (- 52), Cost = 150\<rparr>"
proof -
  have u: "UpgradeStation (examplePlayer (defaultProgress\<lparr>Gold := 100\<rparr>)) ''hp'' =
     (True, (examplePlayer (defaultProgress\<lparr>Gold := 0\<rparr>))
        \<lparr>Factory := defaultFactory\<lparr>HPStation := upgraded defaultStation\<rparr>\<rparr>)"
    by (simp add: UpgradeStation_def getStationByType_def examplePlayer_def defaultProgress_def
        defaultFactory_def defaultStation_def word_sless_alt Let_def)
  have g: "getStationByType ''hp'' = Some HPRef"
    by (simp add: getStationByType_def)
  from C10_upgrade_frame [OF u g] have "station_of (Factory ((examplePlayer (defaultProgress\<lparr>Gold := 0\<rparr>))
        \<lparr>Factory := defaultFactory\<lparr>HPStation := upgraded defaultStation\<rparr>\<rparr>)) ArmorRef =
      station_of (Factory (examplePlayer (defaultProgress\<lparr>Gold := 100\<rparr>))) ArmorRef"
    by blast
  with u show ?thesis
    by (simp add: examplePlayer_def defaultFactory_def upgraded_default)
qed

section \<open>Further properties of the code\<close>

text \<open>
  The upgrade scenario of the specification: a player with gold 100 upgrades \<open>hp\<close>;
  the call succeeds and leaves gold 0 and the hp station at level 2, cost 150 and the
  multiplier at the double nearest to 1.2. A second call at once, with gold 0, fails and
  leaves the player as it is.
\<close>

theorem upgrade_scenario:
  "UpgradeStation (examplePlayer (defaultProgress\<lparr>Gold := 100\<rparr>)) ''hp'' =
     (True, (examplePlayer (defaultProgress\<lparr>Gold := 0\<rparr>))
        \<lparr>Factory := defaultFactory
          \<lparr>HPStation := \<lparr>Level = 2, Multiplier = F64 5404319552844595 (- 52), Cost = 150\<rparr>\<rparr>\<rparr>)
   \<and> UpgradeStation ((examplePlayer (defaultProgress\<lparr>Gold := 0\<rparr>))
        \<lparr>Factory := defaultFactory
          \<lparr>HPStation := \<lparr>Level = 2, Multiplier = F64 5404319552844595 (- 52), Cost = 150\<rparr>\<rparr>\<rparr>) ''hp'' =
     (False, (examplePlayer (defaultProgress\<lparr>Gold := 0\<rparr>))
        \<lparr>Factory := defaultFactory
          \<lparr>HPStation := \<lparr>Level = 2, Multiplier = F64 5404319552844595 (- 52), Cost = 150\<rparr>\<rparr>\<rparr>)
   \<and> \<bar>f64_val (F64 5404319552844595 (- 52)) - 6 / 5\<bar> \<le> 1 / 2 ^ 53"
  by (simp add: upgrade_eval f64_val_def pow2_def)

text \<open>
  For an identifier of at least 8 bytes that the registry does not know,
  \<open>getOrCreatePlayer\<close> returns a player with that identifier, the name \<open>Player\<close> followed
  by the first 8 bytes of the identifier, the default factory (four stations at level
  1, multiplier 1.0, cost 100) and the default progress (dungeon level 1, gold 0,
  experience 0), and stores this player under the identifier.
\<close>

theorem getOrCreatePlayer_creates_default:
  assumes "players playerID = None" and "8 \<le> length playerID"
  shows "getOrCreatePlayer now playerID players =
    Inr (\<lparr>ID = playerID, Name = ''Player '' @ take 8 playerID, Factory = defaultFactory,
          Progress = defaultProgress, LastSeen = now\<rparr>,
         players(playerID \<mapsto> \<lparr>ID = playerID, Name = ''Player '' @ take 8 playerID,
          Factory = defaultFactory, Progress = defaultProgress, LastSeen = now\<rparr>))"
  using assms by (rule getOrCreatePlayer_new)

theorem getOrCreatePlayer_creates_default_witness:
  "getOrCreatePlayer 7 ''player_1700000000000_ab12cd34e'' Map.empty =
    Inr (\<lparr>ID = ''player_1700000000000_ab12cd34e'', Name = ''Player player_1'',
          Factory = defaultFactory, Progress = defaultProgress, LastSeen = 7\<rparr>,
         [''player_1700000000000_ab12cd34e'' \<mapsto>
          \<lparr>ID = ''player_1700000000000_ab12cd34e'', Name = ''Player player_1'',
           Factory = defaultFactory, Progress = defaultProgress, LastSeen = 7\<rparr>])"
  using getOrCreatePlayer_creates_default
    [of Map.empty "''player_1700000000000_ab12cd34e''" 7]
  by simp

text \<open>
  For an identifier the registry knows, \<open>getOrCreatePlayer\<close> returns the stored
  player with the time last seen set to now and nothing else changed, and the registry
  holds the same identifiers as before: one player per identifier.
\<close>

theorem getOrCreatePlayer_known:
  assumes "players playerID = Some player"
  shows "getOrCreatePlayer now playerID players =
      Inr (player\<lparr>LastSeen := now\<rparr>, players(playerID \<mapsto> player\<lparr>LastSeen := now\<rparr>))
    \<and> dom (players(playerID \<mapsto> player\<lparr>LastSeen := now\<rparr>)) = dom players"
  using assms by (auto simp: getOrCreatePlayer_def Let_def)

theorem getOrCreatePlayer_known_witness:
  "getOrCreatePlayer 9 ''player_1'' [''player_1'' \<mapsto> examplePlayer defaultProgress] =
      Inr ((examplePlayer defaultProgress)\<lparr>LastSeen := 9\<rparr>,
           [''player_1'' \<mapsto> (examplePlayer defaultProgress)\<lparr>LastSeen := 9\<rparr>])"
  using getOrCreatePlayer_known
    [of "[''player_1'' \<mapsto> examplePlayer defaultProgress]" "''player_1''" "examplePlayer defaultProgress" 9]
  by simp

text \<open>
  The statistics of the hero are truncated float products. After four upgrades the
  multiplier of the hp station is the double just below 1.8, and the hero has 179 hit
  points.
\<close>

lemma upgraded_4: "(upgraded ^^ 4) defaultStation =
    \<lparr>Level = 5, Multiplier = F64 8106479329266892 (- 52), Cost = 505\<rparr>"
  by (simp add: eval_nat_numeral upgraded_def defaultStation_def mult_step_1 mult_step_2
      mult_step_3 mult_step_4 cost_step_1 cost_step_2 cost_step_3 cost_step_4)

theorem hero_after_four_hp_upgrades:
  "createHero (defaultFactory\<lparr>HPStation := (upgraded ^^ 4) defaultStation\<rparr>) =
     \<lparr>HP = 179, Armor = 10, Attack = 20, Loot = 1\<rparr>
   \<and> \<bar>f64_val (Multiplier ((upgraded ^^ 4) defaultStation)) - 9 / 5\<bar> \<le> 1 / 2 ^ 52
   \<and> f64_val (Multiplier ((upgraded ^^ 4) defaultStation)) < 9 / 5"
  unfolding upgraded_4
  by (simp add: createHero_def defaultFactory_def defaultStation_def f64_eval f64_val_def pow2_def)

text \<open>
  A player who never upgrades wins the battle at dungeon level 1, loses every
  battle at dungeon level 2, and has \<open>12 + 7 * n\<close> gold (in 64-bit arithmetic) after
  \<open>n + 1\<close> ticks.
\<close>

theorem idle_player_gold:
  "ticks (Suc n) (examplePlayer defaultProgress) =
     Some (examplePlayer \<lparr>DungeonLevel = 2, Gold = 12 + 7 * of_nat n, Experience = 6\<rparr>)"
  by (rule ticks_example)

end
